theory Spec2Isabelle
  imports Main
begin

section \<open>Dense Cholesky backends of Ceres (internal/ceres/dense_cholesky.cc)\<close>

text \<open>
  The three backends (Eigen, LAPACK, CUDA in a 32-bit and a 64-bit variant) are embedded
  function by function. Matrix and vector entries are kept abstract (type \<open>'a\<close>): no
  property below depends on floating-point arithmetic. The native routines (Eigen's LLT,
  LAPACK's dpotrf/dpotrs, cuSOLVER's potrf/potrs and the CUDA synchronisation calls) are
  external libraries; they are parameters of the model, collected in one record per
  library. An \<open>int\<close> of the source is a mathematical integer here: the status codes are
  only compared with zero, and the dimension \<open>num_cols\<close> is taken small enough for
  \<open>num_cols * num_cols\<close> not to overflow. A conversion to \<open>size_t\<close> is \<open>nat\<close>.
\<close>

subsection \<open>Status values, host memory, outcomes\<close>

datatype LinearSolverTerminationType =
    LINEAR_SOLVER_SUCCESS
  | LINEAR_SOLVER_FAILURE
  | LINEAR_SOLVER_FATAL_ERROR

text \<open>
  A \<open>double*\<close> argument is the address of a caller-owned buffer. Host memory maps
  each address to the contents of the buffer that starts there, so that a pointer kept
  by an instance (\<open>lhs_\<close> of the LAPACK backend) aliases the caller's buffer.
\<close>

type_synonym ptr = nat

type_synonym 'a host_memory = "ptr \<Rightarrow> 'a list"

text \<open>
  What a call does: it returns a termination type and a message, leaving the instance
  and host memory in a new state; or it reaches \<open>LOG(FATAL)\<close>, which logs its text and
  aborts the process (the source calls the statement after it unreachable); or it
  dereferences a null pointer, which has no defined behaviour. The last two carry the
  instance and host memory at the moment the call stops.
\<close>

datatype ('i, 'a) outcome =
    Returns LinearSolverTerminationType string 'i "'a host_memory"
  | LogFatal string 'i "'a host_memory"
  | NullDereference 'i "'a host_memory"

fun returned_status :: "('i, 'a) outcome \<Rightarrow> LinearSolverTerminationType option" where
  "returned_status (Returns t m i h) = Some t"
| "returned_status (LogFatal m i h) = None"
| "returned_status (NullDereference i h) = None"

fun returned_message :: "('i, 'a) outcome \<Rightarrow> string option" where
  "returned_message (Returns t m i h) = Some m"
| "returned_message (LogFatal m i h) = None"
| "returned_message (NullDereference i h) = None"

fun fatal_log :: "('i, 'a) outcome \<Rightarrow> string option" where
  "fatal_log (Returns t m i h) = None"
| "fatal_log (LogFatal m i h) = Some m"
| "fatal_log (NullDereference i h) = None"

fun instance_of :: "('i, 'a) outcome \<Rightarrow> 'i" where
  "instance_of (Returns t m i h) = i"
| "instance_of (LogFatal m i h) = i"
| "instance_of (NullDereference i h) = i"

fun memory_of :: "('i, 'a) outcome \<Rightarrow> 'a host_memory" where
  "memory_of (Returns t m i h) = h"
| "memory_of (LogFatal m i h) = h"
| "memory_of (NullDereference i h) = h"

text \<open>
  \<open>std::copy_n(src, n, dst)\<close> and the memcpy of a buffer copy: the first \<open>n\<close> elements
  of \<open>dst\<close> are replaced by the first \<open>n\<close> elements of \<open>src\<close>. Both buffers are
  required to hold \<open>n\<close> elements (C++ gives no meaning to the call otherwise).
\<close>

definition copy_n :: "'a list \<Rightarrow> nat \<Rightarrow> 'a list \<Rightarrow> 'a list" where
  "copy_n src n dst = take n src @ drop n dst"

subsection \<open>Decimal output (\<open>%d\<close> of StringPrintf, \<open><<\<close> of the log stream)\<close>

fun dec_nat :: "nat \<Rightarrow> string" where
  "dec_nat n =
     (if n < 10 then [''0123456789'' ! n]
      else dec_nat (n div 10) @ [''0123456789'' ! (n mod 10)])"

declare dec_nat.simps [simp del]

definition dec :: "int \<Rightarrow> string" where
  "dec i = (if i < 0 then CHR ''-'' # dec_nat (nat (- i)) else dec_nat (nat i))"

subsection \<open>DenseCholesky::FactorAndSolve\<close>

text \<open>
  The base-class method calls the virtual \<open>Factorize\<close> and \<open>Solve\<close> of the instance;
  the two are parameters here. The message buffer is an out-parameter: each operation
  yields the message it wrote.
\<close>

type_synonym ('i, 'a) Factorize_fn =
  "'i \<Rightarrow> 'a host_memory \<Rightarrow> int \<Rightarrow> ptr \<Rightarrow> ('i, 'a) outcome"

type_synonym ('i, 'a) Solve_fn =
  "'i \<Rightarrow> 'a host_memory \<Rightarrow> ptr \<Rightarrow> ptr \<Rightarrow> ('i, 'a) outcome"

definition FactorAndSolve ::
  "('i, 'a) Factorize_fn \<Rightarrow> ('i, 'a) Solve_fn \<Rightarrow>
   'i \<Rightarrow> 'a host_memory \<Rightarrow> int \<Rightarrow> ptr \<Rightarrow> ptr \<Rightarrow> ptr \<Rightarrow> ('i, 'a) outcome" where
  "FactorAndSolve Factorize Solve inst mem num_cols lhs rhs solution =
     (case Factorize inst mem num_cols lhs of
        Returns termination_type message inst' mem' \<Rightarrow>
          if termination_type = LINEAR_SOLVER_SUCCESS
          then Solve inst' mem' rhs solution
          else Returns termination_type message inst' mem'
      | LogFatal logged inst' mem' \<Rightarrow> LogFatal logged inst' mem'
      | NullDereference inst' mem' \<Rightarrow> NullDereference inst' mem')"

text \<open>
  To count calls, a backend is wrapped so that each of its operations appends its name
  to a log kept beside the instance. The wrapper changes nothing else.
\<close>

datatype call = CalledFactorize | CalledSolve

fun with_log :: "call list \<Rightarrow> ('i, 'a) outcome \<Rightarrow> ('i \<times> call list, 'a) outcome" where
  "with_log cs (Returns t m i h) = Returns t m (i, cs) h"
| "with_log cs (LogFatal m i h) = LogFatal m (i, cs) h"
| "with_log cs (NullDereference i h) = NullDereference (i, cs) h"

definition logged_Factorize ::
  "('i, 'a) Factorize_fn \<Rightarrow> ('i \<times> call list, 'a) Factorize_fn" where
  "logged_Factorize Factorize ic mem num_cols lhs =
     with_log (snd ic @ [CalledFactorize]) (Factorize (fst ic) mem num_cols lhs)"

definition logged_Solve ::
  "('i, 'a) Solve_fn \<Rightarrow> ('i \<times> call list, 'a) Solve_fn" where
  "logged_Solve Solve ic mem rhs solution =
     with_log (snd ic @ [CalledSolve]) (Solve (fst ic) mem rhs solution)"

definition calls_of :: "('i \<times> call list, 'a) outcome \<Rightarrow> call list" where
  "calls_of r = snd (instance_of r)"

subsection \<open>EigenDenseCholesky\<close>

text \<open>
  Eigen's \<open>LLT\<close> object is opaque (type \<open>'l\<close>). The code constructs it from the matrix,
  and reads its \<open>info()\<close>, its \<open>cols()\<close> and its \<open>solve\<close>.
\<close>

datatype ComputationInfo = Success | NumericalIssue | NoConvergence | InvalidInput

record ('a, 'l) eigen_api =
  LLT_compute :: "int \<Rightarrow> 'a list \<Rightarrow> 'l"
  LLT_info :: "'l \<Rightarrow> ComputationInfo"
  LLT_cols :: "'l \<Rightarrow> int"
  LLT_solve :: "'l \<Rightarrow> 'a list \<Rightarrow> 'a list"

text \<open>
  A member \<open>x_\<close> of a class is the field \<open>eigen_x\<close>, \<open>lapack_x\<close> or \<open>cuda_x\<close> of
  the record of that class (a name cannot end with an underscore here, and the classes
  share member names). \<open>llt_\<close> is a \<open>std::unique_ptr\<close>: \<open>None\<close> is the null pointer.
\<close>

record 'l EigenDenseCholesky =
  eigen_llt :: "'l option"

text \<open>
  The instance \<open>std::make_unique<EigenDenseCholesky>()\<close> yields in
  \<open>DenseCholesky::Create\<close>: a default-constructed \<open>unique_ptr\<close> member is null.
\<close>

definition EigenDenseCholesky_new :: "'l EigenDenseCholesky" where
  "EigenDenseCholesky_new = \<lparr>eigen_llt = None\<rparr>"

definition Eigen_Factorize ::
  "('a, 'l) eigen_api \<Rightarrow> ('l EigenDenseCholesky, 'a) Factorize_fn" where
  "Eigen_Factorize api inst mem num_cols lhs =
     (let m = take (nat (num_cols * num_cols)) (mem lhs);
          l = LLT_compute api num_cols m;
          inst' = inst\<lparr>eigen_llt := Some l\<rparr>
      in if LLT_info api l \<noteq> Success
         then Returns LINEAR_SOLVER_FAILURE
                ''Eigen failure. Unable to perform dense Cholesky factorization.'' inst' mem
         else Returns LINEAR_SOLVER_SUCCESS ''Success.'' inst' mem)"

definition Eigen_Solve ::
  "('a, 'l) eigen_api \<Rightarrow> ('l EigenDenseCholesky, 'a) Solve_fn" where
  "Eigen_Solve api inst mem rhs solution =
     (case eigen_llt inst of
        None \<Rightarrow> NullDereference inst mem
      | Some l \<Rightarrow>
          if LLT_info api l \<noteq> Success
          then Returns LINEAR_SOLVER_FAILURE
                 ''Eigen failure. Unable to perform dense Cholesky factorization.'' inst mem
          else
            let n = nat (LLT_cols api l);
                x = LLT_solve api l (take n (mem rhs))
            in Returns LINEAR_SOLVER_SUCCESS ''Success.'' inst
                 (mem(solution := copy_n x n (mem solution))))"

subsection \<open>LAPACKDenseCholesky\<close>

text \<open>
  \<open>dpotrf_\<close> and \<open>dpotrs_\<close> with \<open>uplo = 'L'\<close>, \<open>lda = ldb = n\<close> and \<open>nrhs = 1\<close>, as
  the code calls them. \<open>dpotrf n a\<close> yields the buffer it leaves in place of \<open>a\<close> and
  the value it stores in \<open>info\<close>; \<open>dpotrs n a b\<close> likewise for \<open>b\<close>. The matrix
  argument of \<open>dpotrs\<close> is \<open>None\<close> when the pointer passed is null.
\<close>

record 'a lapack_api =
  dpotrf :: "int \<Rightarrow> 'a list \<Rightarrow> 'a list \<times> int"
  dpotrs :: "int \<Rightarrow> 'a list option \<Rightarrow> 'a list \<Rightarrow> 'a list \<times> int"

text \<open>The members \<open>lhs_\<close>, \<open>num_cols_\<close> and \<open>termination_type_\<close> of the class.\<close>

record LAPACKDenseCholesky =
  lapack_lhs :: "ptr option"
  lapack_num_cols :: int
  lapack_termination_type :: LinearSolverTerminationType

definition LAPACK_Factorize ::
  "'a lapack_api \<Rightarrow> (LAPACKDenseCholesky, 'a) Factorize_fn" where
  "LAPACK_Factorize api inst mem num_cols lhs =
     (let inst1 = inst\<lparr>lapack_lhs := Some lhs, lapack_num_cols := num_cols\<rparr>;
          (a', info) = dpotrf api num_cols (mem lhs);
          mem' = mem(lhs := a')
      in if info < 0 then
           LogFatal
             (''Congratulations, you found a bug in Ceres. '' @ ''Please report it. '' @
              ''LAPACK::dpotrf fatal error. '' @ ''Argument: '' @ dec (- info) @
              '' is invalid.'')
             (inst1\<lparr>lapack_termination_type := LINEAR_SOLVER_FATAL_ERROR\<rparr>) mem'
         else if info > 0 then
           Returns LINEAR_SOLVER_FAILURE
             (''LAPACK::dpotrf numerical failure. '' @
              ''The leading minor of order '' @ dec info @ '' is not positive definite.'')
             (inst1\<lparr>lapack_termination_type := LINEAR_SOLVER_FAILURE\<rparr>) mem'
         else
           Returns LINEAR_SOLVER_SUCCESS ''Success.''
             (inst1\<lparr>lapack_termination_type := LINEAR_SOLVER_SUCCESS\<rparr>) mem')"

definition LAPACK_Solve ::
  "'a lapack_api \<Rightarrow> (LAPACKDenseCholesky, 'a) Solve_fn" where
  "LAPACK_Solve api inst mem rhs solution =
     (let mem1 = mem(solution :=
                   copy_n (mem rhs) (nat (lapack_num_cols inst)) (mem solution));
          (b', info) = dpotrs api (lapack_num_cols inst)
                         (map_option mem1 (lapack_lhs inst)) (mem1 solution);
          mem2 = mem1(solution := b')
      in if info < 0 then
           LogFatal
             (''Congratulations, you found a bug in Ceres. '' @ ''Please report it. '' @
              ''LAPACK::dpotrs fatal error. '' @ ''Argument: '' @ dec (- info) @
              '' is invalid.'')
             (inst\<lparr>lapack_termination_type := LINEAR_SOLVER_FATAL_ERROR\<rparr>) mem2
         else
           Returns LINEAR_SOLVER_SUCCESS ''Success''
             (inst\<lparr>lapack_termination_type := LINEAR_SOLVER_SUCCESS\<rparr>) mem2)"

subsection \<open>CUDA: device buffers and native routines\<close>

text \<open>
  Modelled from the spec: \<open>CudaBuffer\<close> (cuda_buffer.h is not among the sources). The
  spec's Device Buffer Manager "owns a growable accelerator-resident memory region;
  copy-in/copy-out, never shrinks", with a "grow-only reserve". A buffer is its capacity
  and the elements written to it so far. \<open>Solve\<close> copies the right-hand side into
  \<open>rhs_\<close> without reserving it first, so copy-in grows the buffer where needed.
\<close>

record 'a CudaBuffer =
  buf_data :: "'a list"
  buf_size :: nat

definition Reserve :: "nat \<Rightarrow> 'a CudaBuffer \<Rightarrow> 'a CudaBuffer" where
  "Reserve n b = (if n > buf_size b then b\<lparr>buf_size := n\<rparr> else b)"

definition CopyToGpu :: "'a list \<Rightarrow> nat \<Rightarrow> 'a CudaBuffer \<Rightarrow> 'a CudaBuffer" where
  "CopyToGpu host n b =
     (let b' = Reserve n b in b'\<lparr>buf_data := copy_n host n (buf_data b')\<rparr>)"

definition CopyToHost :: "'a CudaBuffer \<Rightarrow> nat \<Rightarrow> 'a list \<Rightarrow> 'a list" where
  "CopyToHost b n host = copy_n (buf_data b) n host"

text \<open>A kernel writes through the pointer \<open>data()\<close> of a buffer.\<close>

definition device_write :: "'a list \<Rightarrow> 'a CudaBuffer \<Rightarrow> 'a CudaBuffer" where
  "device_write xs b = b\<lparr>buf_data := copy_n xs (length xs) (buf_data b)\<rparr>"

text \<open>\<open>int error = 0; error_.CopyToHost(&error, 1);\<close> yields the value of \<open>error\<close>.\<close>

definition read_error_cell :: "int CudaBuffer \<Rightarrow> int" where
  "read_error_cell b = (case CopyToHost b 1 [0] of [] \<Rightarrow> 0 | e # es \<Rightarrow> e)"

text \<open>
  The status a cuSOLVER call returns, and the error code a CUDA runtime call returns. The
  runtime's codes are integers; \<open>cudaSuccess\<close> is the enumerator 0 of \<open>cudaError_t\<close>.
\<close>

datatype cusolverStatus_t =
    CUSOLVER_STATUS_SUCCESS
  | CUSOLVER_STATUS_NOT_INITIALIZED
  | CUSOLVER_STATUS_ALLOC_FAILED
  | CUSOLVER_STATUS_INVALID_VALUE
  | CUSOLVER_STATUS_ARCH_MISMATCH
  | CUSOLVER_STATUS_EXECUTION_FAILED
  | CUSOLVER_STATUS_INTERNAL_ERROR

type_synonym cudaError_t = int

definition cudaSuccess :: cudaError_t where
  "cudaSuccess = 0"

text \<open>
  The native routines, as the code calls them (lower fill mode, leading dimension
  \<open>num_cols\<close>, one right-hand side). A factorization takes the dimension, the device
  matrix and the workspace sizes; it yields its status, the matrix it leaves on the
  device and the value it leaves in the device error cell. A solve takes the dimension,
  the device matrix and the device right-hand side. The two synchronisation calls yield
  their error codes.
\<close>

record 'a cuda_api =
  cusolverDnDpotrf_bufferSize :: "int \<Rightarrow> 'a list \<Rightarrow> cusolverStatus_t \<times> int"
  cusolverDnDpotrf :: "int \<Rightarrow> 'a list \<Rightarrow> nat \<Rightarrow> cusolverStatus_t \<times> 'a list \<times> int"
  cusolverDnDpotrs :: "int \<Rightarrow> 'a list \<Rightarrow> 'a list \<Rightarrow> cusolverStatus_t \<times> 'a list \<times> int"
  cusolverDnXpotrf_bufferSize :: "int \<Rightarrow> 'a list \<Rightarrow> cusolverStatus_t \<times> nat \<times> nat"
  cusolverDnXpotrf ::
    "int \<Rightarrow> 'a list \<Rightarrow> nat \<Rightarrow> nat \<Rightarrow> cusolverStatus_t \<times> 'a list \<times> int"
  cusolverDnXpotrs :: "int \<Rightarrow> 'a list \<Rightarrow> 'a list \<Rightarrow> cusolverStatus_t \<times> 'a list \<times> int"
  cudaDeviceSynchronize :: cudaError_t
  cudaStreamSynchronize :: cudaError_t

text \<open>
  C++ operators that the synchronisation checks use: \<open>a || b\<close> evaluates \<open>b\<close> only
  when \<open>a\<close> is false; \<open>a, b\<close> evaluates \<open>a\<close>, discards it and is \<open>b\<close>; an error code
  in a condition is true when it is not zero.
\<close>

definition logical_or :: "bool \<Rightarrow> bool \<Rightarrow> bool" where
  "logical_or a b = (if a then True else b)"

definition comma_operator :: "'x \<Rightarrow> 'y \<Rightarrow> 'y" where
  "comma_operator a b = b"

definition as_condition :: "cudaError_t \<Rightarrow> bool" where
  "as_condition e = (e \<noteq> 0)"

text \<open>
  The condition of the 32-bit class, in \<open>Factorize\<close> and in \<open>Solve\<close>:
  \<open>cudaDeviceSynchronize() != cudaSuccess || cudaStreamSynchronize(stream_), cudaSuccess\<close>.
  The comma binds weaker than \<open>||\<close>.
\<close>

definition sync_failed_32 :: "'a cuda_api \<Rightarrow> bool" where
  "sync_failed_32 api =
     as_condition
       (comma_operator
          (logical_or (cudaDeviceSynchronize api \<noteq> cudaSuccess)
             (as_condition (cudaStreamSynchronize api)))
          cudaSuccess)"

text \<open>
  The condition of the 64-bit class:
  \<open>cudaDeviceSynchronize() != cudaSuccess || cudaStreamSynchronize(stream_) != cudaSuccess\<close>.
\<close>

definition sync_failed_64 :: "'a cuda_api \<Rightarrow> bool" where
  "sync_failed_64 api =
     logical_or (cudaDeviceSynchronize api \<noteq> cudaSuccess)
       (cudaStreamSynchronize api \<noteq> cudaSuccess)"

subsection \<open>CUDADenseCholesky32Bit\<close>

record 'a CUDADenseCholesky32Bit =
  cuda_num_cols :: int
  cuda_lhs :: "'a CudaBuffer"
  cuda_rhs :: "'a CudaBuffer"
  cuda_device_workspace :: "'a CudaBuffer"
  cuda_error :: "int CudaBuffer"
  cuda_factorize_result :: LinearSolverTerminationType

definition CUDA32_Factorize ::
  "'a cuda_api \<Rightarrow> ('a CUDADenseCholesky32Bit, 'a) Factorize_fn" where
  "CUDA32_Factorize api inst mem num_cols lhs =
     (let inst1 = inst\<lparr>cuda_factorize_result := LINEAR_SOLVER_FATAL_ERROR\<rparr>;
          inst2 = inst1\<lparr>cuda_lhs := Reserve (nat (num_cols * num_cols)) (cuda_lhs inst1)\<rparr>;
          inst3 = inst2\<lparr>cuda_num_cols := num_cols\<rparr>;
          inst4 = inst3\<lparr>cuda_lhs :=
                    CopyToGpu (mem lhs) (nat (num_cols * num_cols)) (cuda_lhs inst3)\<rparr>;
          (size_status, device_workspace_size) =
             cusolverDnDpotrf_bufferSize api num_cols (buf_data (cuda_lhs inst4))
      in if size_status \<noteq> CUSOLVER_STATUS_SUCCESS then
           Returns LINEAR_SOLVER_FATAL_ERROR
             ''cuSolverDN::cusolverDnDpotrf_bufferSize failed.'' inst4 mem
         else
           let inst5 = inst4\<lparr>cuda_device_workspace :=
                         Reserve (nat device_workspace_size) (cuda_device_workspace inst4)\<rparr>;
               (potrf_status, factor, dev_info) =
                  cusolverDnDpotrf api num_cols (buf_data (cuda_lhs inst5))
                    (buf_size (cuda_device_workspace inst5));
               inst6 = inst5\<lparr>cuda_lhs := device_write factor (cuda_lhs inst5),
                             cuda_error := device_write [dev_info] (cuda_error inst5)\<rparr>
           in if potrf_status \<noteq> CUSOLVER_STATUS_SUCCESS then
                Returns LINEAR_SOLVER_FATAL_ERROR ''cuSolverDN::cusolverDnDpotrf failed.''
                  inst6 mem
              else if sync_failed_32 api then
                Returns LINEAR_SOLVER_FATAL_ERROR ''Cuda device synchronization failed.''
                  inst6 mem
              else
                let error = read_error_cell (cuda_error inst6)
                in if error < 0 then
                     LogFatal
                       (''Congratulations, you found a bug in Ceres - '' @
                        ''please report it. '' @
                        ''cuSolverDN::cusolverDnXpotrf fatal error. '' @
                        ''Argument: '' @ dec (- error) @ '' is invalid.'')
                       inst6 mem
                   else if error > 0 then
                     Returns LINEAR_SOLVER_FAILURE
                       (''cuSolverDN::cusolverDnDpotrf numerical failure. '' @
                        ''The leading minor of order '' @ dec error @
                        '' is not positive definite.'')
                       (inst6\<lparr>cuda_factorize_result := LINEAR_SOLVER_FAILURE\<rparr>) mem
                   else
                     Returns LINEAR_SOLVER_SUCCESS ''Success''
                       (inst6\<lparr>cuda_factorize_result := LINEAR_SOLVER_SUCCESS\<rparr>) mem)"

text \<open>
  In \<open>Solve\<close> the local \<open>error\<close> is tested while it still holds its initial 0; the
  error cell is copied into it only afterwards, and not read again.
\<close>

definition CUDA32_Solve ::
  "'a cuda_api \<Rightarrow> ('a CUDADenseCholesky32Bit, 'a) Solve_fn" where
  "CUDA32_Solve api inst mem rhs solution =
     (if cuda_factorize_result inst \<noteq> LINEAR_SOLVER_SUCCESS then
        Returns (cuda_factorize_result inst)
          ''Factorize did not complete succesfully previously.'' inst mem
      else
        let inst1 = inst\<lparr>cuda_rhs :=
                      CopyToGpu (mem rhs) (nat (cuda_num_cols inst)) (cuda_rhs inst)\<rparr>;
            (potrs_status, x, dev_info) =
               cusolverDnDpotrs api (cuda_num_cols inst1) (buf_data (cuda_lhs inst1))
                 (buf_data (cuda_rhs inst1));
            inst2 = inst1\<lparr>cuda_rhs := device_write x (cuda_rhs inst1),
                          cuda_error := device_write [dev_info] (cuda_error inst1)\<rparr>
        in if potrs_status \<noteq> CUSOLVER_STATUS_SUCCESS then
             Returns LINEAR_SOLVER_FATAL_ERROR ''cuSolverDN::cusolverDnDpotrs failed.''
               inst2 mem
           else if sync_failed_32 api then
             Returns LINEAR_SOLVER_FATAL_ERROR ''Cuda device synchronization failed.''
               inst2 mem
           else
             let error = (0 :: int);
                 mem1 = mem(solution :=
                          CopyToHost (cuda_rhs inst2) (nat (cuda_num_cols inst2))
                            (mem solution))
             in if error \<noteq> 0 then
                  LogFatal
                    (''Congratulations, you found a bug in Ceres. '' @
                     ''Please report it.'' @
                     ''cuSolverDN::cusolverDnDpotrs fatal error. '' @
                     ''Argument: '' @ dec (- error) @ '' is invalid.'')
                    inst2 mem1
                else
                  let error1 = read_error_cell (cuda_error inst2)
                  in Returns LINEAR_SOLVER_SUCCESS ''Success'' inst2 mem1)"

subsection \<open>CUDADenseCholesky64Bit\<close>

text \<open>
  The class built when the 64-bit cuSOLVER API exists (\<open>CERES_CUDA_NO_64BIT_SOLVER_API\<close>
  not defined). It has the members of the 32-bit class and \<open>host_workspace_\<close>, a
  \<open>std::vector\<close> of which only the size is used.
\<close>

record 'a CUDADenseCholesky64Bit = "'a CUDADenseCholesky32Bit" +
  cuda_host_workspace :: nat

definition CUDA64_Factorize ::
  "'a cuda_api \<Rightarrow> ('a CUDADenseCholesky64Bit, 'a) Factorize_fn" where
  "CUDA64_Factorize api inst mem num_cols lhs =
     (let inst1 = inst\<lparr>cuda_factorize_result := LINEAR_SOLVER_FATAL_ERROR\<rparr>;
          inst2 = inst1\<lparr>cuda_lhs := Reserve (nat (num_cols * num_cols)) (cuda_lhs inst1)\<rparr>;
          inst3 = inst2\<lparr>cuda_num_cols := num_cols\<rparr>;
          inst4 = inst3\<lparr>cuda_lhs :=
                    CopyToGpu (mem lhs) (nat (num_cols * num_cols)) (cuda_lhs inst3)\<rparr>;
          (size_status, device_workspace_size, host_workspace_size) =
             cusolverDnXpotrf_bufferSize api num_cols (buf_data (cuda_lhs inst4))
      in if size_status \<noteq> CUSOLVER_STATUS_SUCCESS then
           Returns LINEAR_SOLVER_FATAL_ERROR
             ''cuSolverDN::cusolverDnXpotrf_bufferSize failed.'' inst4 mem
         else
           let inst5 = inst4\<lparr>cuda_host_workspace := host_workspace_size\<rparr>;
               inst6 = inst5\<lparr>cuda_device_workspace :=
                         Reserve device_workspace_size (cuda_device_workspace inst5)\<rparr>;
               (potrf_status, factor, dev_info) =
                  cusolverDnXpotrf api num_cols (buf_data (cuda_lhs inst6))
                    (buf_size (cuda_device_workspace inst6)) (cuda_host_workspace inst6);
               inst7 = inst6\<lparr>cuda_lhs := device_write factor (cuda_lhs inst6),
                             cuda_error := device_write [dev_info] (cuda_error inst6)\<rparr>
           in if potrf_status \<noteq> CUSOLVER_STATUS_SUCCESS then
                Returns LINEAR_SOLVER_FATAL_ERROR ''cuSolverDN::cusolverDnXpotrf failed.''
                  inst7 mem
              else if sync_failed_64 api then
                Returns LINEAR_SOLVER_FATAL_ERROR ''Cuda device synchronization failed.''
                  inst7 mem
              else
                let error = read_error_cell (cuda_error inst7)
                in if error < 0 then
                     LogFatal
                       (''Congratulations, you found a bug in Ceres - '' @
                        ''please report it. '' @
                        ''cuSolverDN::cusolverDnXpotrf fatal error. '' @
                        ''Argument: '' @ dec (- error) @ '' is invalid.'')
                       inst7 mem
                   else if error > 0 then
                     Returns LINEAR_SOLVER_FAILURE
                       (''cuSolverDN::cusolverDnXpotrf numerical failure. '' @
                        ''The leading minor of order '' @ dec error @
                        '' is not positive definite.'')
                       (inst7\<lparr>cuda_factorize_result := LINEAR_SOLVER_FAILURE\<rparr>) mem
                   else
                     Returns LINEAR_SOLVER_SUCCESS ''Success''
                       (inst7\<lparr>cuda_factorize_result := LINEAR_SOLVER_SUCCESS\<rparr>) mem)"

definition CUDA64_Solve ::
  "'a cuda_api \<Rightarrow> ('a CUDADenseCholesky64Bit, 'a) Solve_fn" where
  "CUDA64_Solve api inst mem rhs solution =
     (if cuda_factorize_result inst \<noteq> LINEAR_SOLVER_SUCCESS then
        Returns (cuda_factorize_result inst)
          ''Factorize did not complete succesfully previously.'' inst mem
      else
        let inst1 = inst\<lparr>cuda_rhs :=
                      CopyToGpu (mem rhs) (nat (cuda_num_cols inst)) (cuda_rhs inst)\<rparr>;
            (potrs_status, x, dev_info) =
               cusolverDnXpotrs api (cuda_num_cols inst1) (buf_data (cuda_lhs inst1))
                 (buf_data (cuda_rhs inst1));
            inst2 = inst1\<lparr>cuda_rhs := device_write x (cuda_rhs inst1),
                          cuda_error := device_write [dev_info] (cuda_error inst1)\<rparr>
        in if potrs_status \<noteq> CUSOLVER_STATUS_SUCCESS then
             Returns LINEAR_SOLVER_FATAL_ERROR ''cuSolverDN::cusolverDnXpotrs failed.''
               inst2 mem
           else if sync_failed_64 api then
             Returns LINEAR_SOLVER_FATAL_ERROR ''Cuda device synchronization failed.''
               inst2 mem
           else
             let error = read_error_cell (cuda_error inst2)
             in if error \<noteq> 0 then
                  LogFatal
                    (''Congratulations, you found a bug in Ceres. '' @
                     ''Please report it. '' @
                     ''cuSolverDN::cusolverDnXpotrs fatal error. '' @
                     ''Argument: '' @ dec (- error) @ '' is invalid.'')
                    inst2 mem
                else
                  Returns LINEAR_SOLVER_SUCCESS ''Success'' inst2
                    (mem(solution :=
                       CopyToHost (cuda_rhs inst2) (nat (cuda_num_cols inst2))
                         (mem solution))))"

subsection \<open>The classification of a status code, in the words of the specification\<close>

text \<open>
  Section 4.4 of the specification: a negative status code is an argument-contract
  violation, a fatal error; zero is Success; a positive code \<open>k\<close> is Failure, with a
  diagnostic naming \<open>k\<close>. The fatal error is the process-terminating escalation of the
  specification's section 7: the call ends in \<open>LOG(FATAL)\<close> with the given text, and
  the result the instance has recorded is \<open>LINEAR_SOLVER_FATAL_ERROR\<close>. The predicate
  says that the outcome \<open>r\<close> of a call, with \<open>recorded\<close> the result recorded by the
  instance, classifies the code \<open>k\<close> this way.
\<close>

definition classifies_status_code ::
  "int \<Rightarrow> ('i, 'a) outcome \<Rightarrow> LinearSolverTerminationType \<Rightarrow>
   string \<Rightarrow> string \<Rightarrow> string \<Rightarrow> bool" where
  "classifies_status_code k r recorded fatal_text success_message failure_message =
     (if k < 0 then
        fatal_log r = Some fatal_text \<and> recorded = LINEAR_SOLVER_FATAL_ERROR
      else if k = 0 then
        returned_status r = Some LINEAR_SOLVER_SUCCESS \<and>
        returned_message r = Some success_message \<and> recorded = LINEAR_SOLVER_SUCCESS
      else
        returned_status r = Some LINEAR_SOLVER_FAILURE \<and>
        returned_message r = Some failure_message \<and> recorded = LINEAR_SOLVER_FAILURE)"

subsection \<open>Concrete inputs for the examples\<close>

text \<open>
  Host memory with the 2 x 2 identity matrix at address 1, a right-hand side at address
  2, a solution buffer at address 3 and the matrix diag(1, -1) at address 4 (column
  major; integer entries stand for the doubles).
\<close>

definition example_memory :: "int host_memory" where
  "example_memory = ((\<lambda>p. [])(1 := [1, 0, 0, 1], 2 := [5, 7], 3 := [0, 0], 4 := [1, 0, 0, - 1]))"

text \<open>
  Native routines for the examples. They leave their buffers as they are, which is what
  a factorization and a solve do on the identity matrix, and report the given codes.
\<close>

definition stub_lapack_api :: "int \<Rightarrow> int \<Rightarrow> int lapack_api" where
  "stub_lapack_api potrf_info potrs_info =
     \<lparr>dpotrf = (\<lambda>n a. (a, potrf_info)),
      dpotrs = (\<lambda>n a b. (b, potrs_info))\<rparr>"

definition stub_cuda_api :: "cudaError_t \<Rightarrow> cudaError_t \<Rightarrow> int \<Rightarrow> int \<Rightarrow> int cuda_api" where
  "stub_cuda_api device_sync stream_sync potrf_info potrs_info =
     \<lparr>cusolverDnDpotrf_bufferSize = (\<lambda>n a. (CUSOLVER_STATUS_SUCCESS, 4)),
      cusolverDnDpotrf = (\<lambda>n a w. (CUSOLVER_STATUS_SUCCESS, a, potrf_info)),
      cusolverDnDpotrs = (\<lambda>n a b. (CUSOLVER_STATUS_SUCCESS, b, potrs_info)),
      cusolverDnXpotrf_bufferSize = (\<lambda>n a. (CUSOLVER_STATUS_SUCCESS, 4, 0)),
      cusolverDnXpotrf = (\<lambda>n a w h. (CUSOLVER_STATUS_SUCCESS, a, potrf_info)),
      cusolverDnXpotrs = (\<lambda>n a b. (CUSOLVER_STATUS_SUCCESS, b, potrs_info)),
      cudaDeviceSynchronize = device_sync,
      cudaStreamSynchronize = stream_sync\<rparr>"

text \<open>The code of a failed kernel launch, one of the non-zero values of \<open>cudaError_t\<close>.\<close>

definition cudaErrorLaunchFailure :: cudaError_t where
  "cudaErrorLaunchFailure = 719"

definition stub_eigen_api :: "ComputationInfo \<Rightarrow> (int, ComputationInfo \<times> int \<times> int list) eigen_api" where
  "stub_eigen_api result =
     \<lparr>LLT_compute = (\<lambda>n m. (result, n, m)),
      LLT_info = (\<lambda>l. fst l),
      LLT_cols = (\<lambda>l. fst (snd l)),
      LLT_solve = (\<lambda>l b. b)\<rparr>"

text \<open>
  Instances before their first \<open>Factorize\<close>. The initial values of the members are set
  by the class declarations, which are not among the sources; every example calls
  \<open>Factorize\<close> first, which assigns each member that is read afterwards. The error
  cell of a CUDA instance has the one element \<open>Init\<close> reserves.
\<close>

definition example_lapack :: LAPACKDenseCholesky where
  "example_lapack =
     \<lparr>lapack_lhs = None, lapack_num_cols = - 1,
      lapack_termination_type = LINEAR_SOLVER_FATAL_ERROR\<rparr>"

definition empty_buffer :: "'a CudaBuffer" where
  "empty_buffer = \<lparr>buf_data = [], buf_size = 0\<rparr>"

definition example_cuda32 :: "int CUDADenseCholesky32Bit" where
  "example_cuda32 =
     \<lparr>cuda_num_cols = 0, cuda_lhs = empty_buffer, cuda_rhs = empty_buffer,
      cuda_device_workspace = empty_buffer,
      cuda_error = \<lparr>buf_data = [0], buf_size = 1\<rparr>,
      cuda_factorize_result = LINEAR_SOLVER_FATAL_ERROR\<rparr>"

definition example_cuda64 :: "int CUDADenseCholesky64Bit" where
  "example_cuda64 =
     \<lparr>cuda_num_cols = 0, cuda_lhs = empty_buffer, cuda_rhs = empty_buffer,
      cuda_device_workspace = empty_buffer,
      cuda_error = \<lparr>buf_data = [0], buf_size = 1\<rparr>,
      cuda_factorize_result = LINEAR_SOLVER_FATAL_ERROR,
      cuda_host_workspace = 0\<rparr>"

section \<open>Properties\<close>

subsection \<open>Auxiliary facts\<close>

lemmas example_defs = stub_lapack_api_def stub_cuda_api_def cudaErrorLaunchFailure_def
  stub_eigen_api_def example_lapack_def empty_buffer_def example_cuda32_def example_cuda64_def

lemmas buffer_defs = Reserve_def CopyToGpu_def CopyToHost_def device_write_def
  read_error_cell_def copy_n_def

lemmas sync_defs = sync_failed_32_def sync_failed_64_def logical_or_def comma_operator_def
  as_condition_def cudaSuccess_def

lemma example_memory_at:
  "example_memory 1 = [1, 0, 0, 1]" "example_memory (Suc 0) = [1, 0, 0, 1]"
  "example_memory 2 = [5, 7]" "example_memory 3 = [0, 0]"
  "example_memory 4 = [1, 0, 0, - 1]"
  by (simp_all add: example_memory_def)

lemma fun_upd_same_value: "f p = v \<Longrightarrow> f(p := v) = f"
  by auto

lemma calls_of_with_log: "calls_of (with_log cs r) = cs"
  by (cases r) (simp_all add: calls_of_def)

lemma returned_status_with_log: "returned_status (with_log cs r) = returned_status r"
  by (cases r) simp_all

subsection \<open>FactorAndSolve\<close>

lemma FactorAndSolve_success:
  assumes "Factorize inst mem n lhs = Returns LINEAR_SOLVER_SUCCESS message inst' mem'"
  shows "FactorAndSolve Factorize Solve inst mem n lhs rhs solution = Solve inst' mem' rhs solution"
  using assms by (simp add: FactorAndSolve_def)

lemma FactorAndSolve_short_circuit:
  assumes "returned_status (Factorize inst mem n lhs) \<noteq> Some LINEAR_SOLVER_SUCCESS"
  shows "FactorAndSolve Factorize Solve inst mem n lhs rhs solution = Factorize inst mem n lhs"
  using assms by (cases "Factorize inst mem n lhs") (simp_all add: FactorAndSolve_def)

lemma lapack_identity_factorize:
  "LAPACK_Factorize (stub_lapack_api 0 0) example_lapack example_memory 2 1 =
     Returns LINEAR_SOLVER_SUCCESS ''Success.''
       \<lparr>lapack_lhs = Some 1, lapack_num_cols = 2,
        lapack_termination_type = LINEAR_SOLVER_SUCCESS\<rparr> example_memory"
  by (simp add: LAPACK_Factorize_def stub_lapack_api_def example_lapack_def
      example_memory_at fun_upd_same_value)

lemma lapack_indefinite_factorize:
  "LAPACK_Factorize (stub_lapack_api 2 0) example_lapack example_memory 2 4 =
     Returns LINEAR_SOLVER_FAILURE
       ''LAPACK::dpotrf numerical failure. The leading minor of order 2 is not positive definite.''
       \<lparr>lapack_lhs = Some 4, lapack_num_cols = 2,
        lapack_termination_type = LINEAR_SOLVER_FAILURE\<rparr> example_memory"
  by (simp add: LAPACK_Factorize_def stub_lapack_api_def example_lapack_def
      example_memory_at fun_upd_same_value dec_def dec_nat.simps)

text \<open>
  C7. For every backend (any pair of operations \<open>Factorize\<close>, \<open>Solve\<close>) and every
  input, \<open>FactorAndSolve\<close> calls \<open>Factorize\<close> exactly once. If that call returns
  Success, \<open>FactorAndSolve\<close> calls \<open>Solve\<close> on the state \<open>Factorize\<close> left and its
  outcome is that of \<open>Solve\<close>. Otherwise \<open>Solve\<close> is not called and the outcome is
  that of \<open>Factorize\<close>, unchanged. The calls are read off the log of the wrapped
  backend, started empty.
\<close>

theorem C7_FactorAndSolve_composition:
  "(\<forall>message inst' mem'.
      Factorize inst mem n lhs = Returns LINEAR_SOLVER_SUCCESS message inst' mem' \<longrightarrow>
        FactorAndSolve Factorize Solve inst mem n lhs rhs solution =
          Solve inst' mem' rhs solution \<and>
        calls_of (FactorAndSolve (logged_Factorize Factorize) (logged_Solve Solve)
                    (inst, []) mem n lhs rhs solution) = [CalledFactorize, CalledSolve]) \<and>
   (returned_status (Factorize inst mem n lhs) \<noteq> Some LINEAR_SOLVER_SUCCESS \<longrightarrow>
        FactorAndSolve Factorize Solve inst mem n lhs rhs solution =
          Factorize inst mem n lhs \<and>
        calls_of (FactorAndSolve (logged_Factorize Factorize) (logged_Solve Solve)
                    (inst, []) mem n lhs rhs solution) = [CalledFactorize])"
proof (intro conjI allI impI)
  fix message inst' mem'
  assume ok: "Factorize inst mem n lhs = Returns LINEAR_SOLVER_SUCCESS message inst' mem'"
  show "FactorAndSolve Factorize Solve inst mem n lhs rhs solution = Solve inst' mem' rhs solution"
    using ok by (simp add: FactorAndSolve_def)
  have "logged_Factorize Factorize (inst, []) mem n lhs =
          Returns LINEAR_SOLVER_SUCCESS message (inst', [CalledFactorize]) mem'"
    by (simp add: logged_Factorize_def ok)
  then have "FactorAndSolve (logged_Factorize Factorize) (logged_Solve Solve)
               (inst, []) mem n lhs rhs solution =
             logged_Solve Solve (inst', [CalledFactorize]) mem' rhs solution"
    by (rule FactorAndSolve_success)
  then show "calls_of (FactorAndSolve (logged_Factorize Factorize) (logged_Solve Solve)
                    (inst, []) mem n lhs rhs solution) = [CalledFactorize, CalledSolve]"
    by (simp add: logged_Solve_def calls_of_with_log)
next
  assume no: "returned_status (Factorize inst mem n lhs) \<noteq> Some LINEAR_SOLVER_SUCCESS"
  show "FactorAndSolve Factorize Solve inst mem n lhs rhs solution = Factorize inst mem n lhs"
    using no by (rule FactorAndSolve_short_circuit)
  have "returned_status (logged_Factorize Factorize (inst, []) mem n lhs) \<noteq>
          Some LINEAR_SOLVER_SUCCESS"
    using no by (simp add: logged_Factorize_def returned_status_with_log)
  then have "FactorAndSolve (logged_Factorize Factorize) (logged_Solve Solve)
               (inst, []) mem n lhs rhs solution =
             logged_Factorize Factorize (inst, []) mem n lhs"
    by (rule FactorAndSolve_short_circuit)
  then show "calls_of (FactorAndSolve (logged_Factorize Factorize) (logged_Solve Solve)
                    (inst, []) mem n lhs rhs solution) = [CalledFactorize]"
    by (simp add: logged_Factorize_def calls_of_with_log)
qed

text \<open>
  The LAPACK backend on the identity matrix (Factorize succeeds, Solve is called) and on
  diag(1, -1) (Factorize fails at the leading minor of order 2, Solve is not called).
\<close>

theorem C7_FactorAndSolve_composition_witness:
  "calls_of (FactorAndSolve (logged_Factorize (LAPACK_Factorize (stub_lapack_api 0 0)))
               (logged_Solve (LAPACK_Solve (stub_lapack_api 0 0)))
               (example_lapack, []) example_memory 2 1 2 3) = [CalledFactorize, CalledSolve] \<and>
   returned_status (FactorAndSolve (LAPACK_Factorize (stub_lapack_api 0 0))
               (LAPACK_Solve (stub_lapack_api 0 0)) example_lapack example_memory 2 1 2 3) =
     Some LINEAR_SOLVER_SUCCESS \<and>
   calls_of (FactorAndSolve (logged_Factorize (LAPACK_Factorize (stub_lapack_api 2 0)))
               (logged_Solve (LAPACK_Solve (stub_lapack_api 2 0)))
               (example_lapack, []) example_memory 2 4 2 3) = [CalledFactorize] \<and>
   returned_status (FactorAndSolve (LAPACK_Factorize (stub_lapack_api 2 0))
               (LAPACK_Solve (stub_lapack_api 2 0)) example_lapack example_memory 2 4 2 3) =
     Some LINEAR_SOLVER_FAILURE"
proof -
  note a = C7_FactorAndSolve_composition
    [of "LAPACK_Factorize (stub_lapack_api 0 0)" example_lapack example_memory 2 1
        "LAPACK_Solve (stub_lapack_api 0 0)" 2 3]
  note b = C7_FactorAndSolve_composition
    [of "LAPACK_Factorize (stub_lapack_api 2 0)" example_lapack example_memory 2 4
        "LAPACK_Solve (stub_lapack_api 2 0)" 2 3]
  have s: "returned_status
             (LAPACK_Solve (stub_lapack_api 0 0)
                \<lparr>lapack_lhs = Some 1, lapack_num_cols = 2,
                 lapack_termination_type = LINEAR_SOLVER_SUCCESS\<rparr> example_memory 2 3) =
           Some LINEAR_SOLVER_SUCCESS"
    by (simp add: LAPACK_Solve_def stub_lapack_api_def)
  show ?thesis
    using a b s lapack_identity_factorize lapack_indefinite_factorize by simp
qed

subsection \<open>Factorize: classification of the status code\<close>

lemma LAPACK_Factorize_classifies:
  assumes "dpotrf api n (mem lhs) = (a', info)"
  shows "classifies_status_code info (LAPACK_Factorize api inst mem n lhs)
           (lapack_termination_type (instance_of (LAPACK_Factorize api inst mem n lhs)))
           (''Congratulations, you found a bug in Ceres. Please report it. '' @
            ''LAPACK::dpotrf fatal error. Argument: '' @ dec (- info) @ '' is invalid.'')
           ''Success.''
           (''LAPACK::dpotrf numerical failure. The leading minor of order '' @ dec info @
            '' is not positive definite.'')"
  using assms by (simp add: LAPACK_Factorize_def classifies_status_code_def)

lemma read_error_cell_device_write [simp]:
  "read_error_cell (device_write [k] b) = k"
  by (simp add: buffer_defs)

lemma buf_data_CopyToGpu_Reserve [simp]:
  "buf_data (CopyToGpu host n (Reserve n b)) = buf_data (CopyToGpu host n b)"
  by (simp add: buffer_defs)

lemma sync_failed_32_never [simp]: "sync_failed_32 api = False"
  by (simp add: sync_defs)

lemma sync_failed_64_iff:
  "sync_failed_64 api =
     (\<not> (cudaDeviceSynchronize api = cudaSuccess \<and> cudaStreamSynchronize api = cudaSuccess))"
  by (simp add: sync_failed_64_def logical_or_def)

lemma CUDA32_Factorize_classifies:
  assumes "cusolverDnDpotrf_bufferSize api n
             (buf_data (CopyToGpu (mem lhs) (nat (n * n)) (cuda_lhs inst))) =
           (CUSOLVER_STATUS_SUCCESS, w)"
    and "cusolverDnDpotrf api n
             (buf_data (CopyToGpu (mem lhs) (nat (n * n)) (cuda_lhs inst)))
             (buf_size (Reserve (nat w) (cuda_device_workspace inst))) =
           (CUSOLVER_STATUS_SUCCESS, factor, k)"
  shows "classifies_status_code k (CUDA32_Factorize api inst mem n lhs)
           (cuda_factorize_result (instance_of (CUDA32_Factorize api inst mem n lhs)))
           (''Congratulations, you found a bug in Ceres - please report it. '' @
            ''cuSolverDN::cusolverDnXpotrf fatal error. Argument: '' @ dec (- k) @
            '' is invalid.'')
           ''Success''
           (''cuSolverDN::cusolverDnDpotrf numerical failure. '' @
            ''The leading minor of order '' @ dec k @ '' is not positive definite.'')"
  using assms by (simp add: CUDA32_Factorize_def classifies_status_code_def)

lemma CUDA64_Factorize_classifies:
  assumes "cusolverDnXpotrf_bufferSize api n
             (buf_data (CopyToGpu (mem lhs) (nat (n * n)) (cuda_lhs inst))) =
           (CUSOLVER_STATUS_SUCCESS, w, hw)"
    and "cusolverDnXpotrf api n
             (buf_data (CopyToGpu (mem lhs) (nat (n * n)) (cuda_lhs inst)))
             (buf_size (Reserve w (cuda_device_workspace inst))) hw =
           (CUSOLVER_STATUS_SUCCESS, factor, k)"
    and "cudaDeviceSynchronize api = cudaSuccess"
    and "cudaStreamSynchronize api = cudaSuccess"
  shows "classifies_status_code k (CUDA64_Factorize api inst mem n lhs)
           (cuda_factorize_result (instance_of (CUDA64_Factorize api inst mem n lhs)))
           (''Congratulations, you found a bug in Ceres - please report it. '' @
            ''cuSolverDN::cusolverDnXpotrf fatal error. Argument: '' @ dec (- k) @
            '' is invalid.'')
           ''Success''
           (''cuSolverDN::cusolverDnXpotrf numerical failure. '' @
            ''The leading minor of order '' @ dec k @ '' is not positive definite.'')"
  using assms by (simp add: CUDA64_Factorize_def classifies_status_code_def sync_failed_64_iff)

text \<open>
  C2. For every input matrix, \<open>Factorize\<close> of the LAPACK backend and of both CUDA
  backends classifies the signed status code of the native factorization (\<open>info\<close> of
  \<open>dpotrf\<close>, the device error cell of \<open>potrf\<close>) as the specification says: negative is
  a fatal error, zero is Success, positive \<open>k\<close> is Failure with a diagnostic naming the
  leading minor of order \<open>k\<close>. For the CUDA backends the code is read once the size
  query and the kernel launch have returned \<open>CUSOLVER_STATUS_SUCCESS\<close> and, in the
  64-bit class, both synchronisations have succeeded.
\<close>

theorem C2_Factorize_classifies_status_code:
  "(dpotrf lapi n (mem lhs) = (a', info) \<longrightarrow>
      classifies_status_code info (LAPACK_Factorize lapi linst mem n lhs)
        (lapack_termination_type (instance_of (LAPACK_Factorize lapi linst mem n lhs)))
        (''Congratulations, you found a bug in Ceres. Please report it. '' @
         ''LAPACK::dpotrf fatal error. Argument: '' @ dec (- info) @ '' is invalid.'')
        ''Success.''
        (''LAPACK::dpotrf numerical failure. The leading minor of order '' @ dec info @
         '' is not positive definite.'')) \<and>
   (cusolverDnDpotrf_bufferSize api n
        (buf_data (CopyToGpu (mem lhs) (nat (n * n)) (cuda_lhs inst32))) =
      (CUSOLVER_STATUS_SUCCESS, w32) \<and>
    cusolverDnDpotrf api n
        (buf_data (CopyToGpu (mem lhs) (nat (n * n)) (cuda_lhs inst32)))
        (buf_size (Reserve (nat w32) (cuda_device_workspace inst32))) =
      (CUSOLVER_STATUS_SUCCESS, factor32, k32) \<longrightarrow>
      classifies_status_code k32 (CUDA32_Factorize api inst32 mem n lhs)
        (cuda_factorize_result (instance_of (CUDA32_Factorize api inst32 mem n lhs)))
        (''Congratulations, you found a bug in Ceres - please report it. '' @
         ''cuSolverDN::cusolverDnXpotrf fatal error. Argument: '' @ dec (- k32) @
         '' is invalid.'')
        ''Success''
        (''cuSolverDN::cusolverDnDpotrf numerical failure. '' @
         ''The leading minor of order '' @ dec k32 @ '' is not positive definite.'')) \<and>
   (cusolverDnXpotrf_bufferSize api n
        (buf_data (CopyToGpu (mem lhs) (nat (n * n)) (cuda_lhs inst64))) =
      (CUSOLVER_STATUS_SUCCESS, w64, hw64) \<and>
    cusolverDnXpotrf api n
        (buf_data (CopyToGpu (mem lhs) (nat (n * n)) (cuda_lhs inst64)))
        (buf_size (Reserve w64 (cuda_device_workspace inst64))) hw64 =
      (CUSOLVER_STATUS_SUCCESS, factor64, k64) \<and>
    cudaDeviceSynchronize api = cudaSuccess \<and> cudaStreamSynchronize api = cudaSuccess \<longrightarrow>
      classifies_status_code k64 (CUDA64_Factorize api inst64 mem n lhs)
        (cuda_factorize_result (instance_of (CUDA64_Factorize api inst64 mem n lhs)))
        (''Congratulations, you found a bug in Ceres - please report it. '' @
         ''cuSolverDN::cusolverDnXpotrf fatal error. Argument: '' @ dec (- k64) @
         '' is invalid.'')
        ''Success''
        (''cuSolverDN::cusolverDnXpotrf numerical failure. '' @
         ''The leading minor of order '' @ dec k64 @ '' is not positive definite.''))"
  using LAPACK_Factorize_classifies [of lapi n mem lhs a' info linst]
    CUDA32_Factorize_classifies [of api n mem lhs inst32 w32 factor32 k32]
    CUDA64_Factorize_classifies [of api n mem lhs inst64 w64 hw64 factor64 k64]
  by blast

text \<open>
  The matrix diag(1, -1) of size 2, for which the native factorization reports the
  leading minor of order 2: each of the three backends returns Failure and names 2.
\<close>

theorem C2_Factorize_classifies_status_code_witness:
  "returned_status (LAPACK_Factorize (stub_lapack_api 2 0) example_lapack example_memory 2 4) =
     Some LINEAR_SOLVER_FAILURE \<and>
   returned_message (LAPACK_Factorize (stub_lapack_api 2 0) example_lapack example_memory 2 4) =
     Some ''LAPACK::dpotrf numerical failure. The leading minor of order 2 is not positive definite.'' \<and>
   returned_status (CUDA32_Factorize (stub_cuda_api 0 0 2 0) example_cuda32 example_memory 2 4) =
     Some LINEAR_SOLVER_FAILURE \<and>
   returned_message (CUDA32_Factorize (stub_cuda_api 0 0 2 0) example_cuda32 example_memory 2 4) =
     Some (''cuSolverDN::cusolverDnDpotrf numerical failure. '' @
           ''The leading minor of order 2 is not positive definite.'') \<and>
   returned_status (CUDA64_Factorize (stub_cuda_api 0 0 2 0) example_cuda64 example_memory 2 4) =
     Some LINEAR_SOLVER_FAILURE \<and>
   returned_message (CUDA64_Factorize (stub_cuda_api 0 0 2 0) example_cuda64 example_memory 2 4) =
     Some (''cuSolverDN::cusolverDnXpotrf numerical failure. '' @
           ''The leading minor of order 2 is not positive definite.'')"
proof -
  have d: "dec 2 = ''2''"
    by (simp add: dec_def dec_nat.simps)
  note c = C2_Factorize_classifies_status_code
    [of "stub_lapack_api 2 0" 2 example_memory 4 "[1, 0, 0, - 1]" 2 example_lapack
        "stub_cuda_api 0 0 2 0" example_cuda32 4 "[1, 0, 0, - 1]" 2
        example_cuda64 4 0 "[1, 0, 0, - 1]" 2]
  have h1: "dpotrf (stub_lapack_api 2 0) 2 (example_memory 4) = ([1, 0, 0, - 1], 2)"
    by (simp add: stub_lapack_api_def example_memory_at)
  have h2: "cusolverDnDpotrf_bufferSize (stub_cuda_api 0 0 2 0) 2
              (buf_data (CopyToGpu (example_memory 4) (nat (2 * 2)) (cuda_lhs example_cuda32))) =
            (CUSOLVER_STATUS_SUCCESS, 4)"
    by (simp add: stub_cuda_api_def)
  have h3: "cusolverDnDpotrf (stub_cuda_api 0 0 2 0) 2
              (buf_data (CopyToGpu (example_memory 4) (nat (2 * 2)) (cuda_lhs example_cuda32)))
              (buf_size (Reserve (nat 4) (cuda_device_workspace example_cuda32))) =
            (CUSOLVER_STATUS_SUCCESS, [1, 0, 0, - 1], 2)"
    by (simp add: stub_cuda_api_def example_memory_at buffer_defs example_cuda32_def
        empty_buffer_def)
  have h4: "cusolverDnXpotrf_bufferSize (stub_cuda_api 0 0 2 0) 2
              (buf_data (CopyToGpu (example_memory 4) (nat (2 * 2)) (cuda_lhs example_cuda64))) =
            (CUSOLVER_STATUS_SUCCESS, 4, 0)"
    by (simp add: stub_cuda_api_def)
  have h5: "cusolverDnXpotrf (stub_cuda_api 0 0 2 0) 2
              (buf_data (CopyToGpu (example_memory 4) (nat (2 * 2)) (cuda_lhs example_cuda64)))
              (buf_size (Reserve 4 (cuda_device_workspace example_cuda64))) 0 =
            (CUSOLVER_STATUS_SUCCESS, [1, 0, 0, - 1], 2)"
    by (simp add: stub_cuda_api_def example_memory_at buffer_defs example_cuda64_def
        empty_buffer_def)
  have h6: "cudaDeviceSynchronize (stub_cuda_api 0 0 2 0) = cudaSuccess"
    "cudaStreamSynchronize (stub_cuda_api 0 0 2 0) = cudaSuccess"
    by (simp_all add: stub_cuda_api_def cudaSuccess_def)
  show ?thesis
    using c h1 h2 h3 h4 h5 h6 by (simp add: classifies_status_code_def d)
qed

subsection \<open>Host memory after Factorize\<close>

lemma CUDA32_Factorize_memory: "memory_of (CUDA32_Factorize api inst mem n lhs) = mem"
  by (simp add: CUDA32_Factorize_def Let_def split: prod.splits)

lemma CUDA64_Factorize_memory: "memory_of (CUDA64_Factorize api inst mem n lhs) = mem"
  by (simp add: CUDA64_Factorize_def Let_def split: prod.splits)

lemma LAPACK_Factorize_memory:
  "memory_of (LAPACK_Factorize api inst mem n lhs) = mem(lhs := fst (dpotrf api n (mem lhs)))"
  by (simp add: LAPACK_Factorize_def Let_def split: prod.splits)

lemma LAPACK_Factorize_lhs:
  "lapack_lhs (instance_of (LAPACK_Factorize api inst mem n lhs)) = Some lhs"
  by (simp add: LAPACK_Factorize_def Let_def split: prod.splits)

text \<open>
  C9. Whatever a CUDA backend's \<open>Factorize\<close> does (return or abort), host memory is
  then as it was before the call: every element of the caller's \<open>lhs\<close> buffer, and of
  every other host buffer, is unchanged; the matrix is copied to the device and
  factorized there. The LAPACK backend's \<open>Factorize\<close> works in place: the caller's
  buffer at \<open>lhs\<close> then holds what \<open>dpotrf\<close> left there, and the instance keeps the
  address of that buffer.
\<close>

theorem C9_Factorize_host_buffer:
  "memory_of (CUDA32_Factorize api inst32 mem n lhs) = mem \<and>
   memory_of (CUDA64_Factorize api inst64 mem n lhs) = mem \<and>
   memory_of (LAPACK_Factorize lapi linst mem n lhs) =
     mem(lhs := fst (dpotrf lapi n (mem lhs))) \<and>
   lapack_lhs (instance_of (LAPACK_Factorize lapi linst mem n lhs)) = Some lhs"
  by (simp add: CUDA32_Factorize_memory CUDA64_Factorize_memory LAPACK_Factorize_memory
      LAPACK_Factorize_lhs)

subsection \<open>The Eigen backend before its first Factorize\<close>

lemma Eigen_Solve_null:
  "eigen_llt inst = None \<Longrightarrow> Eigen_Solve api inst mem rhs solution = NullDereference inst mem"
  by (simp add: Eigen_Solve_def)

lemma Eigen_Solve_returns_only_with_llt:
  "Eigen_Solve api inst mem rhs solution = Returns t m i h \<Longrightarrow> eigen_llt inst \<noteq> None"
  by (auto simp: Eigen_Solve_def split: option.splits)

lemma Eigen_Factorize_sets_llt:
  "eigen_llt (instance_of (Eigen_Factorize api inst mem n lhs)) =
     Some (LLT_compute api n (take (nat (n * n)) (mem lhs)))"
  by (simp add: Eigen_Factorize_def Let_def)

text \<open>
  C10. \<open>Solve\<close> of the Eigen backend dereferences \<open>llt_\<close> before its guard can return.
  On a new instance, and on every instance whose \<open>llt_\<close> is null, \<open>Solve\<close> has no
  defined result: the outcome is the null dereference, with instance and host memory
  as they were. Whenever \<open>Solve\<close> returns at all (so also on its error path, which
  returns Failure without computing), \<open>llt_\<close> is not null; \<open>Factorize\<close>, the only
  operation that assigns \<open>llt_\<close>, always leaves it non-null.
\<close>

theorem C10_Eigen_Solve_before_Factorize:
  "Eigen_Solve api EigenDenseCholesky_new mem rhs solution =
     NullDereference EigenDenseCholesky_new mem \<and>
   (\<forall>inst. eigen_llt inst = None \<longrightarrow>
      Eigen_Solve api inst mem rhs solution = NullDereference inst mem) \<and>
   (\<forall>inst t m i h. Eigen_Solve api inst mem rhs solution = Returns t m i h \<longrightarrow>
      eigen_llt inst \<noteq> None) \<and>
   (\<forall>inst n lhs. eigen_llt (instance_of (Eigen_Factorize api inst mem n lhs)) \<noteq> None)"
  by (simp add: Eigen_Solve_null Eigen_Solve_returns_only_with_llt Eigen_Factorize_sets_llt
      EigenDenseCholesky_new_def)

text \<open>
  A new instance, on which \<open>Solve\<close> is undefined, and the instance a failed
  \<open>Factorize\<close> leaves, on which \<open>Solve\<close> takes its error path.
\<close>

theorem C10_Eigen_Solve_before_Factorize_witness:
  "eigen_llt (EigenDenseCholesky_new :: (ComputationInfo \<times> int \<times> int list) EigenDenseCholesky) = None \<and>
   Eigen_Solve (stub_eigen_api NumericalIssue) EigenDenseCholesky_new example_memory 2 3 =
     NullDereference EigenDenseCholesky_new example_memory \<and>
   Eigen_Solve (stub_eigen_api NumericalIssue)
     (instance_of (Eigen_Factorize (stub_eigen_api NumericalIssue) EigenDenseCholesky_new
                     example_memory 2 4)) example_memory 2 3 =
     Returns LINEAR_SOLVER_FAILURE
       ''Eigen failure. Unable to perform dense Cholesky factorization.''
       \<lparr>eigen_llt = Some (NumericalIssue, 2, [1, 0, 0, - 1])\<rparr> example_memory \<and>
   eigen_llt (instance_of (Eigen_Factorize (stub_eigen_api NumericalIssue)
                EigenDenseCholesky_new example_memory 2 4)) \<noteq> None"
proof -
  note c = C10_Eigen_Solve_before_Factorize
    [of "stub_eigen_api NumericalIssue" example_memory 2 3]
  have e: "Eigen_Solve (stub_eigen_api NumericalIssue)
     (instance_of (Eigen_Factorize (stub_eigen_api NumericalIssue) EigenDenseCholesky_new
                     example_memory 2 4)) example_memory 2 3 =
     Returns LINEAR_SOLVER_FAILURE
       ''Eigen failure. Unable to perform dense Cholesky factorization.''
       \<lparr>eigen_llt = Some (NumericalIssue, 2, [1, 0, 0, - 1])\<rparr> example_memory"
    by (simp add: Eigen_Solve_def Eigen_Factorize_def stub_eigen_api_def
        EigenDenseCholesky_new_def example_memory_at)
  have n: "eigen_llt (EigenDenseCholesky_new :: (ComputationInfo \<times> int \<times> int list) EigenDenseCholesky) = None"
    by (simp add: EigenDenseCholesky_new_def)
  show ?thesis
    using c e n by simp
qed

subsection \<open>Solve on an instance whose last Factorize did not succeed\<close>

lemma CUDA32_Solve_guard:
  "cuda_factorize_result inst \<noteq> LINEAR_SOLVER_SUCCESS \<Longrightarrow>
   CUDA32_Solve api inst mem rhs solution =
     Returns (cuda_factorize_result inst)
       ''Factorize did not complete succesfully previously.'' inst mem"
  by (simp add: CUDA32_Solve_def)

lemma CUDA64_Solve_guard:
  "cuda_factorize_result inst \<noteq> LINEAR_SOLVER_SUCCESS \<Longrightarrow>
   CUDA64_Solve api inst mem rhs solution =
     Returns (cuda_factorize_result inst)
       ''Factorize did not complete succesfully previously.'' inst mem"
  by (simp add: CUDA64_Solve_def)

lemma CUDA32_Factorize_records:
  "returned_status (CUDA32_Factorize api inst mem n lhs) = Some t \<Longrightarrow>
   cuda_factorize_result (instance_of (CUDA32_Factorize api inst mem n lhs)) = t"
  by (auto simp: CUDA32_Factorize_def Let_def split: prod.splits if_splits)

lemma CUDA64_Factorize_records:
  "returned_status (CUDA64_Factorize api inst mem n lhs) = Some t \<Longrightarrow>
   cuda_factorize_result (instance_of (CUDA64_Factorize api inst mem n lhs)) = t"
  by (auto simp: CUDA64_Factorize_def Let_def split: prod.splits if_splits)

lemma Eigen_Solve_guard:
  "eigen_llt inst = Some l \<Longrightarrow> LLT_info api l \<noteq> Success \<Longrightarrow>
   Eigen_Solve api inst mem rhs solution =
     Returns LINEAR_SOLVER_FAILURE
       ''Eigen failure. Unable to perform dense Cholesky factorization.'' inst mem"
  by (simp add: Eigen_Solve_def)

lemma Eigen_Factorize_failed:
  "returned_status (Eigen_Factorize api inst mem n lhs) \<noteq> Some LINEAR_SOLVER_SUCCESS \<Longrightarrow>
   LLT_info api (LLT_compute api n (take (nat (n * n)) (mem lhs))) \<noteq> Success"
  by (auto simp: Eigen_Factorize_def Let_def split: if_splits)

lemma LAPACK_Solve_ignores_recorded_status:
  "LAPACK_Solve api (inst\<lparr>lapack_termination_type := t\<rparr>) mem rhs solution =
   LAPACK_Solve api inst mem rhs solution"
  by (simp add: LAPACK_Solve_def Let_def split: prod.splits)

lemma lapack_solve_after_failed_factorize:
  "LAPACK_Solve (stub_lapack_api 2 0)
     (instance_of (LAPACK_Factorize (stub_lapack_api 2 0) example_lapack example_memory 2 4))
     (memory_of (LAPACK_Factorize (stub_lapack_api 2 0) example_lapack example_memory 2 4))
     2 3 =
   Returns LINEAR_SOLVER_SUCCESS ''Success''
     \<lparr>lapack_lhs = Some 4, lapack_num_cols = 2,
      lapack_termination_type = LINEAR_SOLVER_SUCCESS\<rparr>
     (example_memory(3 := [5, 7]))"
  unfolding lapack_indefinite_factorize instance_of.simps memory_of.simps
  by (simp add: LAPACK_Solve_def stub_lapack_api_def example_memory_at copy_n_def)

lemma cuda64_factorize_sync_failure:
  "CUDA64_Factorize (stub_cuda_api cudaErrorLaunchFailure 0 0 0) example_cuda64
     example_memory 2 1 =
   Returns LINEAR_SOLVER_FATAL_ERROR ''Cuda device synchronization failed.''
     \<lparr>cuda_num_cols = 2, cuda_lhs = \<lparr>buf_data = [1, 0, 0, 1], buf_size = 4\<rparr>,
      cuda_rhs = empty_buffer, cuda_device_workspace = \<lparr>buf_data = [], buf_size = 4\<rparr>,
      cuda_error = \<lparr>buf_data = [0], buf_size = 1\<rparr>,
      cuda_factorize_result = LINEAR_SOLVER_FATAL_ERROR, cuda_host_workspace = 0\<rparr>
     example_memory"
  by (simp add: CUDA64_Factorize_def example_defs example_memory_at buffer_defs sync_defs)

text \<open>
  C3, as stated, fails. The 64-bit CUDA backend, after a \<open>Factorize\<close> that returned
  FatalError (a failed synchronisation), answers \<open>Solve\<close> with FatalError, not Failure.
  The LAPACK backend, after a \<open>Factorize\<close> that returned Failure, runs \<open>Solve\<close> in
  full and returns Success.
\<close>

theorem C3_counterexample:
  "returned_status
     (CUDA64_Factorize (stub_cuda_api cudaErrorLaunchFailure 0 0 0) example_cuda64
        example_memory 2 1) = Some LINEAR_SOLVER_FATAL_ERROR \<and>
   returned_status
     (CUDA64_Solve (stub_cuda_api 0 0 0 0)
        (instance_of (CUDA64_Factorize (stub_cuda_api cudaErrorLaunchFailure 0 0 0)
                        example_cuda64 example_memory 2 1))
        example_memory 2 3) = Some LINEAR_SOLVER_FATAL_ERROR \<and>
   returned_status
     (LAPACK_Factorize (stub_lapack_api 2 0) example_lapack example_memory 2 4) =
     Some LINEAR_SOLVER_FAILURE \<and>
   returned_status
     (LAPACK_Solve (stub_lapack_api 2 0)
        (instance_of (LAPACK_Factorize (stub_lapack_api 2 0) example_lapack example_memory 2 4))
        (memory_of (LAPACK_Factorize (stub_lapack_api 2 0) example_lapack example_memory 2 4))
        2 3) = Some LINEAR_SOLVER_SUCCESS"
proof (intro conjI)
  show "returned_status
     (CUDA64_Factorize (stub_cuda_api cudaErrorLaunchFailure 0 0 0) example_cuda64
        example_memory 2 1) = Some LINEAR_SOLVER_FATAL_ERROR"
    by (simp only: cuda64_factorize_sync_failure returned_status.simps)
  show "returned_status
     (CUDA64_Solve (stub_cuda_api 0 0 0 0)
        (instance_of (CUDA64_Factorize (stub_cuda_api cudaErrorLaunchFailure 0 0 0)
                        example_cuda64 example_memory 2 1))
        example_memory 2 3) = Some LINEAR_SOLVER_FATAL_ERROR"
    unfolding cuda64_factorize_sync_failure instance_of.simps
    by (simp add: CUDA64_Solve_guard)
  show "returned_status
     (LAPACK_Factorize (stub_lapack_api 2 0) example_lapack example_memory 2 4) =
     Some LINEAR_SOLVER_FAILURE"
    by (simp only: lapack_indefinite_factorize returned_status.simps)
  show "returned_status
     (LAPACK_Solve (stub_lapack_api 2 0)
        (instance_of (LAPACK_Factorize (stub_lapack_api 2 0) example_lapack example_memory 2 4))
        (memory_of (LAPACK_Factorize (stub_lapack_api 2 0) example_lapack example_memory 2 4))
        2 3) = Some LINEAR_SOLVER_SUCCESS"
    by (simp only: lapack_solve_after_failed_factorize returned_status.simps)
qed

text \<open>
  C3, amended. For both CUDA backends, \<open>Solve\<close> on an instance whose recorded
  factorize result is not Success returns at once, with that recorded result as its
  status (Failure after a numerical failure, FatalError otherwise) and the diagnostic
  "Factorize did not complete succesfully previously."; instance, device buffers and
  host memory stay as they were. The recorded result is the status the last
  \<open>Factorize\<close> returned. For the Eigen backend, \<open>Solve\<close> on an instance whose
  decomposition exists and reports failure returns Failure with the diagnostic
  "Eigen failure. Unable to perform dense Cholesky factorization." and computes
  nothing. The LAPACK backend has no such guard: its \<open>Solve\<close> does not depend on the
  recorded termination type.
\<close>

theorem C3_Solve_guard:
  "(cuda_factorize_result inst32 \<noteq> LINEAR_SOLVER_SUCCESS \<longrightarrow>
      CUDA32_Solve api inst32 mem rhs solution =
        Returns (cuda_factorize_result inst32)
          ''Factorize did not complete succesfully previously.'' inst32 mem) \<and>
   (cuda_factorize_result inst64 \<noteq> LINEAR_SOLVER_SUCCESS \<longrightarrow>
      CUDA64_Solve api inst64 mem rhs solution =
        Returns (cuda_factorize_result inst64)
          ''Factorize did not complete succesfully previously.'' inst64 mem) \<and>
   (returned_status (CUDA32_Factorize api inst32 mem n lhs) = Some t32 \<longrightarrow>
      cuda_factorize_result (instance_of (CUDA32_Factorize api inst32 mem n lhs)) = t32) \<and>
   (returned_status (CUDA64_Factorize api inst64 mem n lhs) = Some t64 \<longrightarrow>
      cuda_factorize_result (instance_of (CUDA64_Factorize api inst64 mem n lhs)) = t64) \<and>
   (eigen_llt einst = Some l \<and> LLT_info eapi l \<noteq> Success \<longrightarrow>
      Eigen_Solve eapi einst mem rhs solution =
        Returns LINEAR_SOLVER_FAILURE
          ''Eigen failure. Unable to perform dense Cholesky factorization.'' einst mem) \<and>
   LAPACK_Solve lapi (linst\<lparr>lapack_termination_type := t\<rparr>) mem rhs solution =
     LAPACK_Solve lapi linst mem rhs solution"
  by (simp add: CUDA32_Solve_guard CUDA64_Solve_guard CUDA32_Factorize_records
      CUDA64_Factorize_records Eigen_Solve_guard LAPACK_Solve_ignores_recorded_status)

text \<open>
  The 64-bit backend after a numerical failure on diag(1, -1): \<open>Factorize\<close> returns
  Failure, records it, and \<open>Solve\<close> returns the recorded Failure with the diagnostic.
\<close>

theorem C3_Solve_guard_witness:
  "returned_status (CUDA64_Factorize (stub_cuda_api 0 0 2 0) example_cuda64 example_memory 2 4) =
     Some LINEAR_SOLVER_FAILURE \<and>
   cuda_factorize_result
     (instance_of (CUDA64_Factorize (stub_cuda_api 0 0 2 0) example_cuda64 example_memory 2 4)) =
     LINEAR_SOLVER_FAILURE \<and>
   CUDA64_Solve (stub_cuda_api 0 0 2 0)
     (instance_of (CUDA64_Factorize (stub_cuda_api 0 0 2 0) example_cuda64 example_memory 2 4))
     example_memory 2 3 =
   Returns LINEAR_SOLVER_FAILURE ''Factorize did not complete succesfully previously.''
     (instance_of (CUDA64_Factorize (stub_cuda_api 0 0 2 0) example_cuda64 example_memory 2 4))
     example_memory"
proof -
  have f: "returned_status
             (CUDA64_Factorize (stub_cuda_api 0 0 2 0) example_cuda64 example_memory 2 4) =
           Some LINEAR_SOLVER_FAILURE"
    by (simp add: CUDA64_Factorize_def example_defs example_memory_at buffer_defs sync_defs)
  note c = C3_Solve_guard
    [where ?inst64.0 = "instance_of (CUDA64_Factorize (stub_cuda_api 0 0 2 0) example_cuda64
                       example_memory 2 4)"
       and api = "stub_cuda_api 0 0 2 0" and mem = example_memory and rhs = 2
       and solution = 3, THEN conjunct2, THEN conjunct1, rule_format]
  note d = C3_Solve_guard
    [where ?inst64.0 = example_cuda64 and api = "stub_cuda_api 0 0 2 0" and mem = example_memory
       and n = 2 and lhs = 4 and ?t64.0 = LINEAR_SOLVER_FAILURE,
     THEN conjunct2, THEN conjunct2, THEN conjunct2, THEN conjunct1, rule_format]
  have r: "cuda_factorize_result
     (instance_of (CUDA64_Factorize (stub_cuda_api 0 0 2 0) example_cuda64 example_memory 2 4)) =
     LINEAR_SOLVER_FAILURE"
    using f by (rule d)
  have "CUDA64_Solve (stub_cuda_api 0 0 2 0)
     (instance_of (CUDA64_Factorize (stub_cuda_api 0 0 2 0) example_cuda64 example_memory 2 4))
     example_memory 2 3 =
   Returns (cuda_factorize_result
     (instance_of (CUDA64_Factorize (stub_cuda_api 0 0 2 0) example_cuda64 example_memory 2 4)))
     ''Factorize did not complete succesfully previously.''
     (instance_of (CUDA64_Factorize (stub_cuda_api 0 0 2 0) example_cuda64 example_memory 2 4))
     example_memory"
    by (rule c) (simp add: r)
  with f r show ?thesis
    by simp
qed

subsection \<open>The solution buffer when Solve is refused\<close>

lemma CUDA32_Solve_after_failed_Factorize:
  assumes "returned_status (CUDA32_Factorize api inst mem n lhs) = Some t"
    and "t \<noteq> LINEAR_SOLVER_SUCCESS"
  shows "CUDA32_Solve api' (instance_of (CUDA32_Factorize api inst mem n lhs)) mem' rhs solution =
           Returns t ''Factorize did not complete succesfully previously.''
             (instance_of (CUDA32_Factorize api inst mem n lhs)) mem'"
  using assms CUDA32_Factorize_records [OF assms(1)] by (simp add: CUDA32_Solve_guard)

lemma CUDA64_Solve_after_failed_Factorize:
  assumes "returned_status (CUDA64_Factorize api inst mem n lhs) = Some t"
    and "t \<noteq> LINEAR_SOLVER_SUCCESS"
  shows "CUDA64_Solve api' (instance_of (CUDA64_Factorize api inst mem n lhs)) mem' rhs solution =
           Returns t ''Factorize did not complete succesfully previously.''
             (instance_of (CUDA64_Factorize api inst mem n lhs)) mem'"
  using assms CUDA64_Factorize_records [OF assms(1)] by (simp add: CUDA64_Solve_guard)

lemma Eigen_Solve_after_failed_Factorize:
  assumes "returned_status (Eigen_Factorize api inst mem n lhs) \<noteq> Some LINEAR_SOLVER_SUCCESS"
  shows "Eigen_Solve api (instance_of (Eigen_Factorize api inst mem n lhs)) mem' rhs solution =
           Returns LINEAR_SOLVER_FAILURE
             ''Eigen failure. Unable to perform dense Cholesky factorization.''
             (instance_of (Eigen_Factorize api inst mem n lhs)) mem'"
  using Eigen_Factorize_failed [OF assms]
  by (simp add: Eigen_Solve_guard Eigen_Factorize_sets_llt)

text \<open>
  C8, as stated, fails on the LAPACK backend. On diag(1, -1) \<open>Factorize\<close> returns
  Failure; the \<open>Solve\<close> that follows returns Success, and the solution buffer at
  address 3, which held [0, 0], holds [5, 7].
\<close>

theorem C8_counterexample:
  "returned_status
     (LAPACK_Factorize (stub_lapack_api 2 0) example_lapack example_memory 2 4) =
     Some LINEAR_SOLVER_FAILURE \<and>
   returned_status
     (LAPACK_Solve (stub_lapack_api 2 0)
        (instance_of (LAPACK_Factorize (stub_lapack_api 2 0) example_lapack example_memory 2 4))
        (memory_of (LAPACK_Factorize (stub_lapack_api 2 0) example_lapack example_memory 2 4))
        2 3) = Some LINEAR_SOLVER_SUCCESS \<and>
   memory_of (LAPACK_Factorize (stub_lapack_api 2 0) example_lapack example_memory 2 4) 3 =
     [0, 0] \<and>
   memory_of
     (LAPACK_Solve (stub_lapack_api 2 0)
        (instance_of (LAPACK_Factorize (stub_lapack_api 2 0) example_lapack example_memory 2 4))
        (memory_of (LAPACK_Factorize (stub_lapack_api 2 0) example_lapack example_memory 2 4))
        2 3) 3 = [5, 7]"
proof (intro conjI)
  show "returned_status
     (LAPACK_Factorize (stub_lapack_api 2 0) example_lapack example_memory 2 4) =
     Some LINEAR_SOLVER_FAILURE"
    by (simp only: lapack_indefinite_factorize returned_status.simps)
  show "returned_status
     (LAPACK_Solve (stub_lapack_api 2 0)
        (instance_of (LAPACK_Factorize (stub_lapack_api 2 0) example_lapack example_memory 2 4))
        (memory_of (LAPACK_Factorize (stub_lapack_api 2 0) example_lapack example_memory 2 4))
        2 3) = Some LINEAR_SOLVER_SUCCESS"
    by (simp only: lapack_solve_after_failed_factorize returned_status.simps)
  show "memory_of (LAPACK_Factorize (stub_lapack_api 2 0) example_lapack example_memory 2 4) 3 =
     [0, 0]"
    by (simp only: lapack_indefinite_factorize memory_of.simps example_memory_at)
  show "memory_of
     (LAPACK_Solve (stub_lapack_api 2 0)
        (instance_of (LAPACK_Factorize (stub_lapack_api 2 0) example_lapack example_memory 2 4))
        (memory_of (LAPACK_Factorize (stub_lapack_api 2 0) example_lapack example_memory 2 4))
        2 3) 3 = [5, 7]"
    by (simp only: lapack_solve_after_failed_factorize memory_of.simps fun_upd_same)
qed

text \<open>
  C8, amended. For both CUDA backends, a \<open>Solve\<close> on an instance whose recorded
  factorize result is not Success returns a status other than Success and leaves every
  element of host memory, so of the caller's solution buffer, unchanged; this is the
  case after any \<open>Factorize\<close> that returned Failure or FatalError, and the status is
  then the one that \<open>Factorize\<close> returned. For the Eigen backend, a \<open>Solve\<close> after a
  \<open>Factorize\<close> that did not return Success returns Failure and leaves host memory
  unchanged. Nothing is said of the LAPACK backend, nor of the Eigen backend before
  its first \<open>Factorize\<close>.
\<close>

theorem C8_refused_Solve_leaves_solution:
  "(cuda_factorize_result inst32 \<noteq> LINEAR_SOLVER_SUCCESS \<longrightarrow>
      returned_status (CUDA32_Solve api inst32 mem rhs solution) =
        Some (cuda_factorize_result inst32) \<and>
      memory_of (CUDA32_Solve api inst32 mem rhs solution) = mem) \<and>
   (cuda_factorize_result inst64 \<noteq> LINEAR_SOLVER_SUCCESS \<longrightarrow>
      returned_status (CUDA64_Solve api inst64 mem rhs solution) =
        Some (cuda_factorize_result inst64) \<and>
      memory_of (CUDA64_Solve api inst64 mem rhs solution) = mem) \<and>
   (returned_status (CUDA32_Factorize fapi finst32 fmem n lhs) = Some t32 \<and>
    t32 \<noteq> LINEAR_SOLVER_SUCCESS \<longrightarrow>
      returned_status
        (CUDA32_Solve api (instance_of (CUDA32_Factorize fapi finst32 fmem n lhs))
           mem rhs solution) = Some t32 \<and>
      memory_of
        (CUDA32_Solve api (instance_of (CUDA32_Factorize fapi finst32 fmem n lhs))
           mem rhs solution) = mem) \<and>
   (returned_status (CUDA64_Factorize fapi finst64 fmem n lhs) = Some t64 \<and>
    t64 \<noteq> LINEAR_SOLVER_SUCCESS \<longrightarrow>
      returned_status
        (CUDA64_Solve api (instance_of (CUDA64_Factorize fapi finst64 fmem n lhs))
           mem rhs solution) = Some t64 \<and>
      memory_of
        (CUDA64_Solve api (instance_of (CUDA64_Factorize fapi finst64 fmem n lhs))
           mem rhs solution) = mem) \<and>
   (returned_status (Eigen_Factorize eapi einst fmem n lhs) \<noteq> Some LINEAR_SOLVER_SUCCESS \<longrightarrow>
      returned_status
        (Eigen_Solve eapi (instance_of (Eigen_Factorize eapi einst fmem n lhs))
           mem rhs solution) = Some LINEAR_SOLVER_FAILURE \<and>
      memory_of
        (Eigen_Solve eapi (instance_of (Eigen_Factorize eapi einst fmem n lhs))
           mem rhs solution) = mem)"
proof (intro conjI impI)
  assume "cuda_factorize_result inst32 \<noteq> LINEAR_SOLVER_SUCCESS"
  then show "returned_status (CUDA32_Solve api inst32 mem rhs solution) =
        Some (cuda_factorize_result inst32)"
    and "memory_of (CUDA32_Solve api inst32 mem rhs solution) = mem"
    by (simp_all add: CUDA32_Solve_guard)
next
  assume "cuda_factorize_result inst64 \<noteq> LINEAR_SOLVER_SUCCESS"
  then show "returned_status (CUDA64_Solve api inst64 mem rhs solution) =
        Some (cuda_factorize_result inst64)"
    and "memory_of (CUDA64_Solve api inst64 mem rhs solution) = mem"
    by (simp_all add: CUDA64_Solve_guard)
next
  assume "returned_status (CUDA32_Factorize fapi finst32 fmem n lhs) = Some t32 \<and>
    t32 \<noteq> LINEAR_SOLVER_SUCCESS"
  then show "returned_status
        (CUDA32_Solve api (instance_of (CUDA32_Factorize fapi finst32 fmem n lhs))
           mem rhs solution) = Some t32"
    and "memory_of
        (CUDA32_Solve api (instance_of (CUDA32_Factorize fapi finst32 fmem n lhs))
           mem rhs solution) = mem"
    by (simp_all add: CUDA32_Solve_after_failed_Factorize)
next
  assume "returned_status (CUDA64_Factorize fapi finst64 fmem n lhs) = Some t64 \<and>
    t64 \<noteq> LINEAR_SOLVER_SUCCESS"
  then show "returned_status
        (CUDA64_Solve api (instance_of (CUDA64_Factorize fapi finst64 fmem n lhs))
           mem rhs solution) = Some t64"
    and "memory_of
        (CUDA64_Solve api (instance_of (CUDA64_Factorize fapi finst64 fmem n lhs))
           mem rhs solution) = mem"
    by (simp_all add: CUDA64_Solve_after_failed_Factorize)
next
  assume "returned_status (Eigen_Factorize eapi einst fmem n lhs) \<noteq> Some LINEAR_SOLVER_SUCCESS"
  then show "returned_status
        (Eigen_Solve eapi (instance_of (Eigen_Factorize eapi einst fmem n lhs))
           mem rhs solution) = Some LINEAR_SOLVER_FAILURE"
    and "memory_of
        (Eigen_Solve eapi (instance_of (Eigen_Factorize eapi einst fmem n lhs))
           mem rhs solution) = mem"
    by (simp_all add: Eigen_Solve_after_failed_Factorize)
qed

text \<open>
  The 32-bit backend and the Eigen backend on diag(1, -1): \<open>Factorize\<close> returns
  Failure, \<open>Solve\<close> returns Failure, and the solution buffer still holds [0, 0].
\<close>

theorem C8_refused_Solve_leaves_solution_witness:
  "returned_status (CUDA32_Factorize (stub_cuda_api 0 0 2 0) example_cuda32 example_memory 2 4) =
     Some LINEAR_SOLVER_FAILURE \<and>
   returned_status
     (CUDA32_Solve (stub_cuda_api 0 0 2 0)
        (instance_of (CUDA32_Factorize (stub_cuda_api 0 0 2 0) example_cuda32 example_memory 2 4))
        example_memory 2 3) = Some LINEAR_SOLVER_FAILURE \<and>
   memory_of
     (CUDA32_Solve (stub_cuda_api 0 0 2 0)
        (instance_of (CUDA32_Factorize (stub_cuda_api 0 0 2 0) example_cuda32 example_memory 2 4))
        example_memory 2 3) 3 = [0, 0] \<and>
   returned_status
     (Eigen_Factorize (stub_eigen_api NumericalIssue) EigenDenseCholesky_new example_memory 2 4) =
     Some LINEAR_SOLVER_FAILURE \<and>
   returned_status
     (Eigen_Solve (stub_eigen_api NumericalIssue)
        (instance_of (Eigen_Factorize (stub_eigen_api NumericalIssue) EigenDenseCholesky_new
                        example_memory 2 4))
        example_memory 2 3) = Some LINEAR_SOLVER_FAILURE \<and>
   memory_of
     (Eigen_Solve (stub_eigen_api NumericalIssue)
        (instance_of (Eigen_Factorize (stub_eigen_api NumericalIssue) EigenDenseCholesky_new
                        example_memory 2 4))
        example_memory 2 3) 3 = [0, 0]"
proof -
  have f: "returned_status
             (CUDA32_Factorize (stub_cuda_api 0 0 2 0) example_cuda32 example_memory 2 4) =
           Some LINEAR_SOLVER_FAILURE"
    by (simp add: CUDA32_Factorize_def example_defs example_memory_at buffer_defs)
  have e: "returned_status
             (Eigen_Factorize (stub_eigen_api NumericalIssue) EigenDenseCholesky_new
                example_memory 2 4) = Some LINEAR_SOLVER_FAILURE"
    by (simp add: Eigen_Factorize_def stub_eigen_api_def)
  note c = C8_refused_Solve_leaves_solution
    [where fapi = "stub_cuda_api 0 0 2 0" and ?finst32.0 = example_cuda32
       and fmem = example_memory and n = 2 and lhs = 4 and ?t32.0 = LINEAR_SOLVER_FAILURE
       and api = "stub_cuda_api 0 0 2 0" and mem = example_memory and rhs = 2 and solution = 3
       and eapi = "stub_eigen_api NumericalIssue" and einst = EigenDenseCholesky_new]
  note c3 = c [THEN conjunct2, THEN conjunct2, THEN conjunct1, rule_format]
  note c5 = c [THEN conjunct2, THEN conjunct2, THEN conjunct2, THEN conjunct2, rule_format]
  have g: "returned_status
     (CUDA32_Solve (stub_cuda_api 0 0 2 0)
        (instance_of (CUDA32_Factorize (stub_cuda_api 0 0 2 0) example_cuda32 example_memory 2 4))
        example_memory 2 3) = Some LINEAR_SOLVER_FAILURE \<and>
   memory_of
     (CUDA32_Solve (stub_cuda_api 0 0 2 0)
        (instance_of (CUDA32_Factorize (stub_cuda_api 0 0 2 0) example_cuda32 example_memory 2 4))
        example_memory 2 3) = example_memory"
    by (rule c3) (simp add: f)
  have h: "returned_status
     (Eigen_Solve (stub_eigen_api NumericalIssue)
        (instance_of (Eigen_Factorize (stub_eigen_api NumericalIssue) EigenDenseCholesky_new
                        example_memory 2 4))
        example_memory 2 3) = Some LINEAR_SOLVER_FAILURE \<and>
   memory_of
     (Eigen_Solve (stub_eigen_api NumericalIssue)
        (instance_of (Eigen_Factorize (stub_eigen_api NumericalIssue) EigenDenseCholesky_new
                        example_memory 2 4))
        example_memory 2 3) = example_memory"
    by (rule c5) (simp add: e)
  from f e g h show ?thesis
    by (simp add: example_memory_at)
qed

subsection \<open>Solve: classification of the status code\<close>




lemma CUDA64_Solve_outcome:
  assumes "cuda_factorize_result inst = LINEAR_SOLVER_SUCCESS"
    and "cusolverDnXpotrs api (cuda_num_cols inst) (buf_data (cuda_lhs inst))
           (buf_data (CopyToGpu (mem rhs) (nat (cuda_num_cols inst)) (cuda_rhs inst))) =
         (CUSOLVER_STATUS_SUCCESS, x, k)"
    and "cudaDeviceSynchronize api = cudaSuccess"
    and "cudaStreamSynchronize api = cudaSuccess"
  shows "CUDA64_Solve api inst mem rhs solution =
           (let inst' = inst\<lparr>cuda_rhs :=
                          device_write x
                            (CopyToGpu (mem rhs) (nat (cuda_num_cols inst)) (cuda_rhs inst)),
                        cuda_error := device_write [k] (cuda_error inst)\<rparr>
            in if k \<noteq> 0 then
                 LogFatal
                   (''Congratulations, you found a bug in Ceres. Please report it. '' @
                    ''cuSolverDN::cusolverDnXpotrs fatal error. Argument: '' @ dec (- k) @
                    '' is invalid.'')
                   inst' mem
               else
                 Returns LINEAR_SOLVER_SUCCESS ''Success'' inst'
                   (mem(solution :=
                      CopyToHost (cuda_rhs inst') (nat (cuda_num_cols inst)) (mem solution))))"
  using assms by (simp add: CUDA64_Solve_def sync_failed_64_iff Let_def)

lemma cuda64_identity_factorize:
  "CUDA64_Factorize (stub_cuda_api 0 0 0 k) example_cuda64 example_memory 2 1 =
   Returns LINEAR_SOLVER_SUCCESS ''Success''
     \<lparr>cuda_num_cols = 2, cuda_lhs = \<lparr>buf_data = [1, 0, 0, 1], buf_size = 4\<rparr>,
      cuda_rhs = empty_buffer, cuda_device_workspace = \<lparr>buf_data = [], buf_size = 4\<rparr>,
      cuda_error = \<lparr>buf_data = [0], buf_size = 1\<rparr>,
      cuda_factorize_result = LINEAR_SOLVER_SUCCESS, cuda_host_workspace = 0\<rparr>
     example_memory"
  by (simp add: CUDA64_Factorize_def example_defs example_memory_at buffer_defs sync_defs)

lemma cuda32_identity_factorize:
  "CUDA32_Factorize (stub_cuda_api d s 0 k) example_cuda32 example_memory 2 1 =
   Returns LINEAR_SOLVER_SUCCESS ''Success''
     \<lparr>cuda_num_cols = 2, cuda_lhs = \<lparr>buf_data = [1, 0, 0, 1], buf_size = 4\<rparr>,
      cuda_rhs = empty_buffer, cuda_device_workspace = \<lparr>buf_data = [], buf_size = 4\<rparr>,
      cuda_error = \<lparr>buf_data = [0], buf_size = 1\<rparr>,
      cuda_factorize_result = LINEAR_SOLVER_SUCCESS\<rparr>
     example_memory"
  by (simp add: CUDA32_Factorize_def example_defs example_memory_at buffer_defs)

lemma cuda64_solve_after_identity:
  "CUDA64_Solve (stub_cuda_api 0 0 0 k)
     \<lparr>cuda_num_cols = 2, cuda_lhs = \<lparr>buf_data = [1, 0, 0, 1], buf_size = 4\<rparr>,
      cuda_rhs = empty_buffer, cuda_device_workspace = \<lparr>buf_data = [], buf_size = 4\<rparr>,
      cuda_error = \<lparr>buf_data = [0], buf_size = 1\<rparr>,
      cuda_factorize_result = LINEAR_SOLVER_SUCCESS, cuda_host_workspace = 0\<rparr>
     example_memory 2 3 =
   (if k \<noteq> 0 then
      LogFatal
        (''Congratulations, you found a bug in Ceres. Please report it. '' @
         ''cuSolverDN::cusolverDnXpotrs fatal error. Argument: '' @ dec (- k) @
         '' is invalid.'')
        \<lparr>cuda_num_cols = 2, cuda_lhs = \<lparr>buf_data = [1, 0, 0, 1], buf_size = 4\<rparr>,
         cuda_rhs = \<lparr>buf_data = [5, 7], buf_size = 2\<rparr>,
         cuda_device_workspace = \<lparr>buf_data = [], buf_size = 4\<rparr>,
         cuda_error = \<lparr>buf_data = [k], buf_size = 1\<rparr>,
         cuda_factorize_result = LINEAR_SOLVER_SUCCESS, cuda_host_workspace = 0\<rparr>
        example_memory
    else
      Returns LINEAR_SOLVER_SUCCESS ''Success''
        \<lparr>cuda_num_cols = 2, cuda_lhs = \<lparr>buf_data = [1, 0, 0, 1], buf_size = 4\<rparr>,
         cuda_rhs = \<lparr>buf_data = [5, 7], buf_size = 2\<rparr>,
         cuda_device_workspace = \<lparr>buf_data = [], buf_size = 4\<rparr>,
         cuda_error = \<lparr>buf_data = [k], buf_size = 1\<rparr>,
         cuda_factorize_result = LINEAR_SOLVER_SUCCESS, cuda_host_workspace = 0\<rparr>
        (example_memory(3 := [5, 7])))"
  by (simp add: CUDA64_Solve_def example_defs example_memory_at buffer_defs sync_defs)

lemma cuda32_solve_after_identity:
  "CUDA32_Solve (stub_cuda_api d s 0 k)
     \<lparr>cuda_num_cols = 2, cuda_lhs = \<lparr>buf_data = [1, 0, 0, 1], buf_size = 4\<rparr>,
      cuda_rhs = empty_buffer, cuda_device_workspace = \<lparr>buf_data = [], buf_size = 4\<rparr>,
      cuda_error = \<lparr>buf_data = [0], buf_size = 1\<rparr>,
      cuda_factorize_result = LINEAR_SOLVER_SUCCESS\<rparr>
     example_memory 2 3 =
   Returns LINEAR_SOLVER_SUCCESS ''Success''
     \<lparr>cuda_num_cols = 2, cuda_lhs = \<lparr>buf_data = [1, 0, 0, 1], buf_size = 4\<rparr>,
      cuda_rhs = \<lparr>buf_data = [5, 7], buf_size = 2\<rparr>,
      cuda_device_workspace = \<lparr>buf_data = [], buf_size = 4\<rparr>,
      cuda_error = \<lparr>buf_data = [k], buf_size = 1\<rparr>,
      cuda_factorize_result = LINEAR_SOLVER_SUCCESS\<rparr>
     (example_memory(3 := [5, 7]))"
  by (simp add: CUDA32_Solve_def example_defs example_memory_at buffer_defs)

text \<open>
  The 32-bit \<open>Solve\<close>, once the kernel has been launched with success, returns Success
  whatever value the kernel left in the device error cell.
\<close>

lemma CUDA32_Solve_outcome:
  assumes "cuda_factorize_result inst = LINEAR_SOLVER_SUCCESS"
    and "cusolverDnDpotrs api (cuda_num_cols inst) (buf_data (cuda_lhs inst))
           (buf_data (CopyToGpu (mem rhs) (nat (cuda_num_cols inst)) (cuda_rhs inst))) =
         (CUSOLVER_STATUS_SUCCESS, x, k)"
  shows "CUDA32_Solve api inst mem rhs solution =
           (let inst' = inst\<lparr>cuda_rhs :=
                          device_write x
                            (CopyToGpu (mem rhs) (nat (cuda_num_cols inst)) (cuda_rhs inst)),
                        cuda_error := device_write [k] (cuda_error inst)\<rparr>
            in Returns LINEAR_SOLVER_SUCCESS ''Success'' inst'
                 (mem(solution :=
                    CopyToHost (cuda_rhs inst') (nat (cuda_num_cols inst)) (mem solution))))"
  using assms by (simp add: CUDA32_Solve_def Let_def)

text \<open>
  C4 fails on the 32-bit backend. After a successful \<open>Factorize\<close> of the identity, a
  solve kernel that is launched with success and leaves the negative value -3 in the
  device error cell makes the 32-bit \<open>Solve\<close> return Success with the message
  "Success": its local \<open>error\<close> is tested while it still holds 0, and the cell, which
  holds -3 when \<open>Solve\<close> returns, is copied to the host only after the test. On the
  same input the 64-bit \<open>Solve\<close> reads the cell first and ends in \<open>LOG(FATAL)\<close>.
\<close>

theorem C4_error_cell_ignored_by_32bit:
  "returned_status
     (CUDA32_Factorize (stub_cuda_api 0 0 0 (- 3)) example_cuda32 example_memory 2 1) =
     Some LINEAR_SOLVER_SUCCESS \<and>
   returned_status
     (CUDA32_Solve (stub_cuda_api 0 0 0 (- 3))
        (instance_of
           (CUDA32_Factorize (stub_cuda_api 0 0 0 (- 3)) example_cuda32 example_memory 2 1))
        example_memory 2 3) = Some LINEAR_SOLVER_SUCCESS \<and>
   returned_message
     (CUDA32_Solve (stub_cuda_api 0 0 0 (- 3))
        (instance_of
           (CUDA32_Factorize (stub_cuda_api 0 0 0 (- 3)) example_cuda32 example_memory 2 1))
        example_memory 2 3) = Some ''Success'' \<and>
   read_error_cell
     (cuda_error
        (instance_of
           (CUDA32_Solve (stub_cuda_api 0 0 0 (- 3))
              (instance_of
                 (CUDA32_Factorize (stub_cuda_api 0 0 0 (- 3)) example_cuda32
                    example_memory 2 1))
              example_memory 2 3))) = - 3 \<and>
   fatal_log
     (CUDA64_Solve (stub_cuda_api 0 0 0 (- 3))
        (instance_of
           (CUDA64_Factorize (stub_cuda_api 0 0 0 (- 3)) example_cuda64 example_memory 2 1))
        example_memory 2 3) =
     Some (''Congratulations, you found a bug in Ceres. Please report it. '' @
           ''cuSolverDN::cusolverDnXpotrs fatal error. Argument: 3 is invalid.'')"
proof -
  have d: "dec 3 = ''3''"
    by (simp add: dec_def dec_nat.simps)
  show ?thesis
    unfolding cuda32_identity_factorize cuda64_identity_factorize instance_of.simps
      cuda32_solve_after_identity cuda64_solve_after_identity
    by (simp add: d read_error_cell_def CopyToHost_def copy_n_def)
qed

subsection \<open>Synchronisation failures\<close>

text \<open>
  The 64-bit backend reports a failed synchronisation, in \<open>Factorize\<close> and in
  \<open>Solve\<close>, once the kernel has been launched.
\<close>

lemma CUDA64_Factorize_sync_failure:
  assumes "cusolverDnXpotrf_bufferSize api n
             (buf_data (CopyToGpu (mem lhs) (nat (n * n)) (cuda_lhs inst))) =
           (CUSOLVER_STATUS_SUCCESS, w, hw)"
    and "cusolverDnXpotrf api n
             (buf_data (CopyToGpu (mem lhs) (nat (n * n)) (cuda_lhs inst)))
             (buf_size (Reserve w (cuda_device_workspace inst))) hw =
           (CUSOLVER_STATUS_SUCCESS, factor, k)"
    and "\<not> (cudaDeviceSynchronize api = cudaSuccess \<and> cudaStreamSynchronize api = cudaSuccess)"
  shows "returned_status (CUDA64_Factorize api inst mem n lhs) =
           Some LINEAR_SOLVER_FATAL_ERROR \<and>
         returned_message (CUDA64_Factorize api inst mem n lhs) =
           Some ''Cuda device synchronization failed.''"
  using assms by (simp add: CUDA64_Factorize_def sync_failed_64_iff)

lemma CUDA64_Solve_sync_failure:
  assumes "cuda_factorize_result inst = LINEAR_SOLVER_SUCCESS"
    and "cusolverDnXpotrs api (cuda_num_cols inst) (buf_data (cuda_lhs inst))
           (buf_data (CopyToGpu (mem rhs) (nat (cuda_num_cols inst)) (cuda_rhs inst))) =
         (CUSOLVER_STATUS_SUCCESS, x, k)"
    and "\<not> (cudaDeviceSynchronize api = cudaSuccess \<and> cudaStreamSynchronize api = cudaSuccess)"
  shows "returned_status (CUDA64_Solve api inst mem rhs solution) =
           Some LINEAR_SOLVER_FATAL_ERROR \<and>
         returned_message (CUDA64_Solve api inst mem rhs solution) =
           Some ''Cuda device synchronization failed.''"
  using assms by (simp add: CUDA64_Solve_def sync_failed_64_iff)

text \<open>
  The 32-bit backend does not: the value of its condition is that of \<open>cudaSuccess\<close>,
  so the outcome of either operation is the same whatever the two synchronisation
  calls return.
\<close>

lemma CUDA32_Factorize_ignores_synchronisation:
  "CUDA32_Factorize (api\<lparr>cudaDeviceSynchronize := d, cudaStreamSynchronize := s\<rparr>)
     inst mem n lhs = CUDA32_Factorize api inst mem n lhs"
  by (simp add: CUDA32_Factorize_def Let_def split: prod.splits)

lemma CUDA32_Solve_ignores_synchronisation:
  "CUDA32_Solve (api\<lparr>cudaDeviceSynchronize := d, cudaStreamSynchronize := s\<rparr>)
     inst mem rhs solution = CUDA32_Solve api inst mem rhs solution"
  by (simp add: CUDA32_Solve_def Let_def split: prod.splits)

lemma CUDA32_never_reports_synchronisation:
  "returned_message (CUDA32_Factorize api inst mem n lhs) \<noteq>
     Some ''Cuda device synchronization failed.'' \<and>
   returned_message (CUDA32_Solve api inst mem rhs solution) \<noteq>
     Some ''Cuda device synchronization failed.''"
  by (simp add: CUDA32_Factorize_def CUDA32_Solve_def Let_def split: prod.splits)

text \<open>
  C1 fails on the 32-bit backend. With both synchronisation calls failing
  (\<open>cudaErrorLaunchFailure\<close>) after kernels that were launched with success,
  \<open>Factorize\<close> of the identity returns Success with the message "Success", and so
  does the \<open>Solve\<close> that follows; neither returns FatalError with "Cuda device
  synchronization failed.".
\<close>

theorem C1_sync_failure_ignored_by_32bit:
  "returned_status
     (CUDA32_Factorize (stub_cuda_api cudaErrorLaunchFailure cudaErrorLaunchFailure 0 0)
        example_cuda32 example_memory 2 1) = Some LINEAR_SOLVER_SUCCESS \<and>
   returned_message
     (CUDA32_Factorize (stub_cuda_api cudaErrorLaunchFailure cudaErrorLaunchFailure 0 0)
        example_cuda32 example_memory 2 1) = Some ''Success'' \<and>
   returned_status
     (CUDA32_Solve (stub_cuda_api cudaErrorLaunchFailure cudaErrorLaunchFailure 0 0)
        (instance_of
           (CUDA32_Factorize (stub_cuda_api cudaErrorLaunchFailure cudaErrorLaunchFailure 0 0)
              example_cuda32 example_memory 2 1))
        example_memory 2 3) = Some LINEAR_SOLVER_SUCCESS \<and>
   returned_message
     (CUDA32_Solve (stub_cuda_api cudaErrorLaunchFailure cudaErrorLaunchFailure 0 0)
        (instance_of
           (CUDA32_Factorize (stub_cuda_api cudaErrorLaunchFailure cudaErrorLaunchFailure 0 0)
              example_cuda32 example_memory 2 1))
        example_memory 2 3) = Some ''Success''"
  unfolding cuda32_identity_factorize instance_of.simps cuda32_solve_after_identity
  by simp

subsection \<open>The two CUDA variants compared\<close>

text \<open>
  C6 fails. On the same inputs (the identity matrix, instances with the same member
  values, the same native routines), with a failing \<open>cudaDeviceSynchronize\<close> the
  32-bit \<open>Factorize\<close> returns Success and the 64-bit \<open>Factorize\<close> returns
  FatalError. With working synchronisation and a solve kernel that leaves -3 in the
  error cell, both \<open>Factorize\<close> calls return Success; then the 32-bit \<open>Solve\<close>
  returns Success and writes the solution buffer, the 64-bit \<open>Solve\<close> ends in
  \<open>LOG(FATAL)\<close> and does not.
\<close>

theorem C6_variants_differ:
  "returned_status
     (CUDA32_Factorize (stub_cuda_api cudaErrorLaunchFailure 0 0 0)
        example_cuda32 example_memory 2 1) = Some LINEAR_SOLVER_SUCCESS \<and>
   returned_status
     (CUDA64_Factorize (stub_cuda_api cudaErrorLaunchFailure 0 0 0)
        example_cuda64 example_memory 2 1) = Some LINEAR_SOLVER_FATAL_ERROR \<and>
   returned_status
     (CUDA32_Factorize (stub_cuda_api 0 0 0 (- 3)) example_cuda32 example_memory 2 1) =
     Some LINEAR_SOLVER_SUCCESS \<and>
   returned_status
     (CUDA64_Factorize (stub_cuda_api 0 0 0 (- 3)) example_cuda64 example_memory 2 1) =
     Some LINEAR_SOLVER_SUCCESS \<and>
   returned_status
     (CUDA32_Solve (stub_cuda_api 0 0 0 (- 3))
        (instance_of
           (CUDA32_Factorize (stub_cuda_api 0 0 0 (- 3)) example_cuda32 example_memory 2 1))
        example_memory 2 3) = Some LINEAR_SOLVER_SUCCESS \<and>
   memory_of
     (CUDA32_Solve (stub_cuda_api 0 0 0 (- 3))
        (instance_of
           (CUDA32_Factorize (stub_cuda_api 0 0 0 (- 3)) example_cuda32 example_memory 2 1))
        example_memory 2 3) 3 = [5, 7] \<and>
   returned_status
     (CUDA64_Solve (stub_cuda_api 0 0 0 (- 3))
        (instance_of
           (CUDA64_Factorize (stub_cuda_api 0 0 0 (- 3)) example_cuda64 example_memory 2 1))
        example_memory 2 3) = None \<and>
   fatal_log
     (CUDA64_Solve (stub_cuda_api 0 0 0 (- 3))
        (instance_of
           (CUDA64_Factorize (stub_cuda_api 0 0 0 (- 3)) example_cuda64 example_memory 2 1))
        example_memory 2 3) =
     Some (''Congratulations, you found a bug in Ceres. Please report it. '' @
           ''cuSolverDN::cusolverDnXpotrs fatal error. Argument: 3 is invalid.'') \<and>
   memory_of
     (CUDA64_Solve (stub_cuda_api 0 0 0 (- 3))
        (instance_of
           (CUDA64_Factorize (stub_cuda_api 0 0 0 (- 3)) example_cuda64 example_memory 2 1))
        example_memory 2 3) 3 = [0, 0]"
proof -
  have d: "dec 3 = ''3''"
    by (simp add: dec_def dec_nat.simps)
  show ?thesis
    unfolding cuda32_identity_factorize cuda64_identity_factorize cuda64_factorize_sync_failure
      instance_of.simps cuda32_solve_after_identity cuda64_solve_after_identity
    by (simp add: d example_memory_at)
qed

end
